theory Spec2Isabelle
  imports Complex_Main
begin

section \<open>Configuration model (\<^verbatim>\<open>st.session_state.aufgaben\<close>)\<close>

text \<open>
  The configuration of \<^verbatim>\<open>app.py\<close> is a list of Aufgaben (tasks); each Aufgabe is a
  dict with one key \<^verbatim>\<open>teilaufgaben\<close>, a list of Teilaufgaben (subtasks); each Teilaufgabe
  is a dict \<^verbatim>\<open>{punkte: int, descriptions: list[str]}\<close>. Python integers are unbounded,
  so \<^verbatim>\<open>punkte\<close> and every column number is an \<open>int\<close>.
\<close>

record teilaufgabe =
  punkte :: int
  descriptions :: "string list"

record aufgabe =
  teilaufgaben :: "teilaufgabe list"

text \<open>The exceptions the modelled code can raise.\<close>

datatype error = IndexError | ZeroDivisionError

section \<open>Column layout (\<^verbatim>\<open>build_mappe_sheet\<close>, ``Compute column positions'')\<close>

text \<open>One entry of \<^verbatim>\<open>aufgabe_layouts\<close>, with the keys of the source dict.\<close>

record layout =
  teil_punkte :: "int list"
  teil_descriptions :: "string list list"
  n_teil :: nat
  ss_col :: int
  s_cols :: "int list"
  sum_block_end :: int
  teil_point_starts :: "int list"

text \<open>
  Phase 1: the loop \<^verbatim>\<open>for aufgabe in aufgaben\<close> with the cursor \<^verbatim>\<open>col\<close>. It returns the
  layouts appended, in order, and the cursor after the loop.
\<close>

fun phase1 :: "int \<Rightarrow> aufgabe list \<Rightarrow> layout list \<times> int" where
  "phase1 col [] = ([], col)"
| "phase1 col (a # rest) =
     (let tp = map punkte (teilaufgaben a);
          n = length tp;
          lay = \<lparr> teil_punkte = tp,
                  teil_descriptions = map descriptions (teilaufgaben a),
                  n_teil = n,
                  ss_col = col,
                  s_cols = map (\<lambda>t. col + 1 + int t) [0..<n],
                  sum_block_end = col + int n,
                  teil_point_starts = [] \<rparr>;
          (lays, col') = phase1 (sum_block_end lay + 1) rest
      in (lay # lays, col'))"

text \<open>
  Phase 2, inner loop \<^verbatim>\<open>for pts in lay["teil_punkte"]\<close>: the start columns appended and
  the cursor after the loop.
\<close>

fun point_starts :: "int \<Rightarrow> int list \<Rightarrow> int list \<times> int" where
  "point_starts col [] = ([], col)"
| "point_starts col (pts # rest) =
     (let (starts, col') = point_starts (col + pts) rest in (col # starts, col'))"

text \<open>Phase 2, outer loop \<^verbatim>\<open>for lay in aufgabe_layouts\<close>.\<close>

fun phase2 :: "int \<Rightarrow> layout list \<Rightarrow> layout list \<times> int" where
  "phase2 col [] = ([], col)"
| "phase2 col (lay # rest) =
     (let (starts, col1) = point_starts col (teil_punkte lay);
          (lays, col2) = phase2 col1 rest
      in (lay\<lparr>teil_point_starts := teil_point_starts lay @ starts\<rparr> # lays, col2))"

text \<open>The whole computation: the cursor starts at \<^verbatim>\<open>col = 6\<close>.\<close>

definition compute_layout :: "aufgabe list \<Rightarrow> layout list" where
  "compute_layout aufgaben =
     (let (lays, col) = phase1 6 aufgaben in fst (phase2 col lays))"

section \<open>Editor operations on the configuration\<close>

text \<open>
  Python list indexing \<^verbatim>\<open>xs[i]\<close>: a negative index counts from the end; an index out of
  range raises \<^verbatim>\<open>IndexError\<close>. The result is the position read.
\<close>

definition py_index :: "'a list \<Rightarrow> int \<Rightarrow> error + nat" where
  "py_index xs i =
     (let n = int (length xs); j = (if i < 0 then i + n else i)
      in if 0 \<le> j \<and> j < n then Inr (nat j) else Inl IndexError)"

text \<open>\<^verbatim>\<open>xs.pop(idx)\<close>: the list without the element at \<^verbatim>\<open>idx\<close>, or \<^verbatim>\<open>IndexError\<close>.\<close>

definition pop :: "'a list \<Rightarrow> int \<Rightarrow> error + 'a list" where
  "pop xs idx =
     (case py_index xs idx of
        Inl e \<Rightarrow> Inl e
      | Inr j \<Rightarrow> Inr (take j xs @ drop (Suc j) xs))"

text \<open>
  Python slicing \<^verbatim>\<open>xs[start:stop]\<close> (also \<^verbatim>\<open>DataFrame.iloc[start:stop]\<close>): each bound is
  counted from the end when negative and then clamped to \<^verbatim>\<open>0..len(xs)\<close>.
\<close>

definition py_slice :: "'a list \<Rightarrow> int \<Rightarrow> int \<Rightarrow> 'a list" where
  "py_slice xs start stop =
     (let n = int (length xs);
          s = (if start < 0 then max 0 (start + n) else min start n);
          e = (if stop < 0 then max 0 (stop + n) else min stop n)
      in take (nat (e - s)) (drop (nat s) xs))"

text \<open>The literal \<^verbatim>\<open>{"punkte": 4, "descriptions": [""] * 4}\<close> and the Aufgabe of two of them.\<close>

definition default_teilaufgabe :: teilaufgabe where
  "default_teilaufgabe = \<lparr> punkte = 4, descriptions = replicate 4 [] \<rparr>"

definition default_aufgabe :: aufgabe where
  "default_aufgabe = \<lparr> teilaufgaben = [default_teilaufgabe, default_teilaufgabe] \<rparr>"

text \<open>\<^verbatim>\<open>_init_state\<close>: the session state holds no \<^verbatim>\<open>aufgaben\<close> (\<open>None\<close>) or a configuration.\<close>

definition init_state :: "aufgabe list option \<Rightarrow> aufgabe list" where
  "init_state st = (case st of None \<Rightarrow> [default_aufgabe] | Some aufgaben \<Rightarrow> aufgaben)"

definition add_aufgabe :: "aufgabe list \<Rightarrow> aufgabe list" where
  "add_aufgabe aufgaben = aufgaben @ [default_aufgabe]"

definition remove_aufgabe :: "aufgabe list \<Rightarrow> int \<Rightarrow> error + aufgabe list" where
  "remove_aufgabe aufgaben idx =
     (if length aufgaben > 1 then pop aufgaben idx else Inr aufgaben)"

definition add_teilaufgabe :: "aufgabe list \<Rightarrow> int \<Rightarrow> error + aufgabe list" where
  "add_teilaufgabe aufgaben a_idx =
     (case py_index aufgaben a_idx of
        Inl e \<Rightarrow> Inl e
      | Inr j \<Rightarrow>
          Inr (aufgaben[j := \<lparr> teilaufgaben =
                 teilaufgaben (aufgaben ! j) @ [default_teilaufgabe] \<rparr>]))"

definition remove_teilaufgabe :: "aufgabe list \<Rightarrow> int \<Rightarrow> int \<Rightarrow> error + aufgabe list" where
  "remove_teilaufgabe aufgaben a_idx t_idx =
     (case py_index aufgaben a_idx of
        Inl e \<Rightarrow> Inl e
      | Inr j \<Rightarrow>
          (let ta_list = teilaufgaben (aufgaben ! j)
           in if length ta_list > 1
              then (case pop ta_list t_idx of
                      Inl e \<Rightarrow> Inl e
                    | Inr ta_list' \<Rightarrow> Inr (aufgaben[j := \<lparr> teilaufgaben = ta_list' \<rparr>]))
              else Inr aufgaben))"

text \<open>
  \<^verbatim>\<open>_sync_descriptions\<close>. The new descriptions, from the old ones and \<^verbatim>\<open>new_punkte\<close>:
  \<^verbatim>\<open>old + [""] * (new_punkte - len(old))\<close>, the slice \<^verbatim>\<open>old[:new_punkte]\<close>, or \<^verbatim>\<open>old\<close> itself.
\<close>

definition synced_descriptions :: "string list \<Rightarrow> int \<Rightarrow> string list" where
  "synced_descriptions old new_punkte =
     (if new_punkte > int (length old)
      then old @ replicate (nat (new_punkte - int (length old))) []
      else if new_punkte < int (length old)
      then py_slice old 0 new_punkte
      else old)"

definition sync_descriptions ::
  "aufgabe list \<Rightarrow> int \<Rightarrow> int \<Rightarrow> int \<Rightarrow> error + aufgabe list" where
  "sync_descriptions aufgaben a_idx t_idx new_punkte =
     (case py_index aufgaben a_idx of
        Inl e \<Rightarrow> Inl e
      | Inr j \<Rightarrow>
          (let ta_list = teilaufgaben (aufgaben ! j)
           in case py_index ta_list t_idx of
                Inl e \<Rightarrow> Inl e
              | Inr i \<Rightarrow>
                  (let ta = ta_list ! i;
                       ta' = \<lparr> punkte = new_punkte,
                               descriptions = synced_descriptions (descriptions ta) new_punkte \<rparr>
                   in Inr (aufgaben[j := \<lparr> teilaufgaben = ta_list[i := ta'] \<rparr>]))))"

text \<open>
  The description field of the form: \<^verbatim>\<open>if p_idx < len(ta["descriptions"]):
  ta["descriptions"][p_idx] = new_desc\<close>, at positions that the form enumerates.
\<close>

definition set_description ::
  "aufgabe list \<Rightarrow> nat \<Rightarrow> nat \<Rightarrow> nat \<Rightarrow> string \<Rightarrow> aufgabe list" where
  "set_description aufgaben a t p new_desc =
     (if a < length aufgaben \<and> t < length (teilaufgaben (aufgaben ! a))
      then (let ta_list = teilaufgaben (aufgaben ! a); ta = ta_list ! t
            in if p < length (descriptions ta)
               then aufgaben[a := \<lparr> teilaufgaben =
                      ta_list[t := ta\<lparr> descriptions := (descriptions ta)[p := new_desc] \<rparr>] \<rparr>]
               else aufgaben)
      else aufgaben)"

text \<open>
  The editor as a transition system: one step is one of the operations above; an
  operation that raises leaves no successor state.
\<close>

datatype editor_op =
    AddAufgabe
  | RemoveAufgabe int
  | AddTeilaufgabe int
  | RemoveTeilaufgabe int int
  | SyncDescriptions int int int
  | SetDescription nat nat nat string

fun apply_op :: "aufgabe list \<Rightarrow> editor_op \<Rightarrow> error + aufgabe list" where
  "apply_op s AddAufgabe = Inr (add_aufgabe s)"
| "apply_op s (RemoveAufgabe idx) = remove_aufgabe s idx"
| "apply_op s (AddTeilaufgabe a_idx) = add_teilaufgabe s a_idx"
| "apply_op s (RemoveTeilaufgabe a_idx t_idx) = remove_teilaufgabe s a_idx t_idx"
| "apply_op s (SyncDescriptions a_idx t_idx n) = sync_descriptions s a_idx t_idx n"
| "apply_op s (SetDescription a t p d) = Inr (set_description s a t p d)"

inductive reachable :: "aufgabe list \<Rightarrow> bool" where
  init: "reachable (init_state None)"
| step: "reachable s \<Longrightarrow> apply_op s ev = Inr s' \<Longrightarrow> reachable s'"

section \<open>Worksheets and cell contents\<close>

text \<open>
  A worksheet is a store from (row, column) to the value written there. Each section of
  \<^verbatim>\<open>build_mappe_sheet\<close> is modelled by the list of value writes
  \<^verbatim>\<open>ws.cell(row=r, column=c, value=v)\<close> it performs, in program order; a later write to
  the same cell replaces the earlier one. Fonts, fills, alignments, borders, widths and
  merged regions are not values and are left out.
\<close>

datatype cell_value = Num int | Str string | Datum int int int

type_synonym cell_write = "(int \<times> int) \<times> cell_value"

type_synonym worksheet = "(int \<times> int) \<rightharpoonup> cell_value"

definition apply_writes :: "worksheet \<Rightarrow> cell_write list \<Rightarrow> worksheet" where
  "apply_writes ws writes = fold (\<lambda>(k, v) m. m(k \<mapsto> v)) writes ws"

text \<open>Sequencing of two sections, and of the iterations of a loop: the first exception wins.\<close>

definition seq_writes ::
  "error + cell_write list \<Rightarrow> error + cell_write list \<Rightarrow> error + cell_write list" where
  "seq_writes a b =
     (case a of
        Inl e \<Rightarrow> Inl e
      | Inr ws \<Rightarrow> (case b of Inl e \<Rightarrow> Inl e | Inr ws' \<Rightarrow> Inr (ws @ ws')))"

fun for_each :: "('a \<Rightarrow> error + cell_write list) \<Rightarrow> 'a list \<Rightarrow> error + cell_write list" where
  "for_each f [] = Inr []"
| "for_each f (x # xs) = seq_writes (f x) (for_each f xs)"

text \<open>Python's \<^verbatim>\<open>str\<close> of an integer, as the f-strings format row and task numbers.\<close>

definition digit_chars :: string where
  "digit_chars = ''0123456789''"

fun str_nat :: "nat \<Rightarrow> string" where
  "str_nat n =
     (if n < 10 then [digit_chars ! n] else str_nat (n div 10) @ [digit_chars ! (n mod 10)])"

declare str_nat.simps [simp del]

definition str_int :: "int \<Rightarrow> string" where
  "str_int i = (if i < 0 then ''-'' @ str_nat (nat (- i)) else str_nat (nat i))"

text \<open>\<^verbatim>\<open>sep.join(xs)\<close>.\<close>

fun join :: "string \<Rightarrow> string list \<Rightarrow> string" where
  "join sep [] = []"
| "join sep [x] = x"
| "join sep (x # y # ys) = x @ sep @ join sep (y # ys)"

text \<open>\<^verbatim>\<open>f"A{aufgabe_nr}.{t_idx + 1}"\<close>.\<close>

definition teil_label :: "int \<Rightarrow> nat \<Rightarrow> string" where
  "teil_label aufgabe_nr t_idx = ''A'' @ str_int aufgabe_nr @ ''.'' @ str_int (int t_idx + 1)"

text \<open>\<^verbatim>\<open>list(string.ascii_lowercase)\<close>.\<close>

definition letters :: string where
  "letters = ''abcdefghijklmnopqrstuvwxyz''"

text \<open>
  The formulas. \<^verbatim>\<open>get_column_letter\<close> belongs to openpyxl, not to this repository, and is
  a parameter \<open>L\<close> of the model (it raises outside columns 1 to 18278, which the model
  does not follow). \<open>sum_formula L c1 c2 row\<close> is
  \<^verbatim>\<open>f"=SUM({get_column_letter(c1)}{row}:{get_column_letter(c2)}{row})"\<close>.
\<close>

definition sum_formula :: "(int \<Rightarrow> string) \<Rightarrow> int \<Rightarrow> int \<Rightarrow> int \<Rightarrow> string" where
  "sum_formula L c1 c2 row =
     ''=SUM('' @ L c1 @ str_int row @ '':'' @ L c2 @ str_int row @ '')''"

text \<open>\<^verbatim>\<open>f'=IFERROR(AVERAGE({pc_l}{first_data_row}:{pc_l}{last_data_row}),"")'\<close>.\<close>

definition average_formula :: "(int \<Rightarrow> string) \<Rightarrow> int \<Rightarrow> int \<Rightarrow> int \<Rightarrow> string" where
  "average_formula L pc first_data_row last_data_row =
     ''=IFERROR(AVERAGE('' @ L pc @ str_int first_data_row @ '':'' @ L pc
       @ str_int last_data_row @ ''),'' @ [CHR 0x22, CHR 0x22] @ '')''"

section \<open>The rows of a Mappe sheet (\<^verbatim>\<open>build_mappe_sheet\<close>)\<close>

text \<open>
  The rows read \<^verbatim>\<open>lay["s_cols"][t_idx]\<close>, \<^verbatim>\<open>lay["teil_point_starts"][t_idx]\<close> and
  \<^verbatim>\<open>lay["teil_punkte"][t_idx]\<close> for \<^verbatim>\<open>t_idx in range(lay["n_teil"])\<close> only, and only of
  layouts that the two phases above have built; all these lists then have \<^verbatim>\<open>n_teil\<close>
  entries (lemma \<open>layout_lengths\<close> below), so the reads are in range and are written
  with \<open>!\<close>.
\<close>

text \<open>
  The point columns of Teilaufgabe \<open>t\<close> of a layout, as every loop
  \<^verbatim>\<open>for p in range(lay["teil_punkte"][t_idx])\<close> visits them:
  \<^verbatim>\<open>pc = lay["teil_point_starts"][t_idx] + p\<close>.
\<close>

definition point_col :: "layout \<Rightarrow> nat \<Rightarrow> nat \<Rightarrow> int" where
  "point_col lay t_idx p = teil_point_starts lay ! t_idx + int p"

definition range_punkte :: "layout \<Rightarrow> nat \<Rightarrow> nat list" where
  "range_punkte lay t_idx = [0..<nat (teil_punkte lay ! t_idx)]"

text \<open>
  The two formulas that rows 5 and 6 and every student row write, for their own row:
  the SS cell sums from \<^verbatim>\<open>lay['s_cols'][0]\<close> to \<^verbatim>\<open>lay['s_cols'][-1]\<close> (read only where the
  list is not empty, see below), the S cell of Teilaufgabe \<open>t_idx\<close> sums from
  \<^verbatim>\<open>lay["teil_point_starts"][t_idx]\<close> to
  \<^verbatim>\<open>lay["teil_point_starts"][t_idx] + lay["teil_punkte"][t_idx] - 1\<close>.
\<close>

definition ss_value :: "(int \<Rightarrow> string) \<Rightarrow> layout \<Rightarrow> int \<Rightarrow> cell_value" where
  "ss_value L lay row = Str (sum_formula L (hd (s_cols lay)) (last (s_cols lay)) row)"

definition s_value :: "(int \<Rightarrow> string) \<Rightarrow> layout \<Rightarrow> nat \<Rightarrow> int \<Rightarrow> cell_value" where
  "s_value L lay t_idx row =
     Str (sum_formula L (teil_point_starts lay ! t_idx)
            (teil_point_starts lay ! t_idx + teil_punkte lay ! t_idx - 1) row)"

text \<open>Row 1: the title and the \<^verbatim>\<open>SUM\<close> headers.\<close>

definition row1 :: "layout list \<Rightarrow> string \<Rightarrow> cell_write list" where
  "row1 lays semester =
     ((1, 1), Str semester) # map (\<lambda>lay. ((1, ss_col lay), Str ''SUM'')) lays"

text \<open>Row 2: date, Mappe number and the Teilaufgabe labels over the point columns.\<close>

definition row2 :: "layout list \<Rightarrow> int \<Rightarrow> int \<times> int \<times> int \<Rightarrow> cell_write list" where
  "row2 lays mappe_nr exam_date =
     [((2, 1), Str ''Datum:''),
      ((2, 3), (case exam_date of (y, m, d) \<Rightarrow> Datum y m d)),
      ((2, 4), Str ''Mappe''),
      ((2, 5), Num mappe_nr)]
     @ concat (map (\<lambda>(a_idx, lay).
         map (\<lambda>t_idx. ((2, teil_point_starts lay ! t_idx),
                        Str (teil_label (int a_idx + 1) t_idx)))
           [0..<length (teil_punkte lay)])
        (enumerate 0 lays))"

text \<open>Row 3: the descriptions. A point column gets a value only for a non-empty description.\<close>

definition row3_descs :: "layout \<Rightarrow> nat \<Rightarrow> cell_write list" where
  "row3_descs lay t_idx =
     (let descs_list = teil_descriptions lay;
          descs = (if t_idx < length descs_list then descs_list ! t_idx else [])
      in concat (map (\<lambda>p.
           (let desc = (if p < length descs then descs ! p else [])
            in if desc \<noteq> [] then [((3, point_col lay t_idx p), Str desc)] else []))
         (range_punkte lay t_idx)))"

definition row3 :: "layout list \<Rightarrow> cell_write list" where
  "row3 lays =
     ((3, 5), Str ''Richtige Klausur?'')
     # concat (map (\<lambda>(a_idx, lay).
         [((3, ss_col lay),
           Str (join '' + '' (map (teil_label (int a_idx + 1)) [0..<n_teil lay])))]
         @ map (\<lambda>t_idx. ((3, s_cols lay ! t_idx), Str (teil_label (int a_idx + 1) t_idx)))
             [0..<n_teil lay]
         @ concat (map (row3_descs lay) [0..<n_teil lay]))
        (enumerate 0 lays))"

text \<open>Row 4: the column headers.\<close>

definition row4 :: "layout list \<Rightarrow> cell_write list" where
  "row4 lays =
     [((4, 1), Str ''Nr''), ((4, 2), Str ''Matr-Nr''),
      ((4, 3), Str ''Nachname''), ((4, 4), Str ''Vorname'')]
     @ concat (map (\<lambda>lay.
         ((4, ss_col lay), Str ''SS'')
         # concat (map (\<lambda>t_idx.
             ((4, s_cols lay ! t_idx), Str ''S'')
             # map (\<lambda>p. ((4, point_col lay t_idx p), Str [letters ! (p mod 26)]))
                 (range_punkte lay t_idx))
            [0..<n_teil lay]))
        lays)"

text \<open>
  Row 5, ``Maximale Punkte''. \<^verbatim>\<open>lay['s_cols'][0]\<close> and \<^verbatim>\<open>lay['s_cols'][-1]\<close> raise
  \<^verbatim>\<open>IndexError\<close> on an empty list.
\<close>

definition row5_lay :: "(int \<Rightarrow> string) \<Rightarrow> layout \<Rightarrow> error + cell_write list" where
  "row5_lay L lay =
     (case s_cols lay of
        [] \<Rightarrow> Inl IndexError
      | _ # _ \<Rightarrow>
          Inr (((5, ss_col lay), ss_value L lay 5)
               # concat (map (\<lambda>t_idx.
                   ((5, s_cols lay ! t_idx), s_value L lay t_idx 5)
                   # map (\<lambda>p. ((5, point_col lay t_idx p), Num 1)) (range_punkte lay t_idx))
                  [0..<n_teil lay])))"

definition row5 :: "(int \<Rightarrow> string) \<Rightarrow> layout list \<Rightarrow> error + cell_write list" where
  "row5 L lays =
     seq_writes (Inr [((5, 1), Str ''Maximale Punkte'')]) (for_each (row5_lay L) lays)"

text \<open>
  Row 6, ``Durchschnittliche Punkte'', with \<^verbatim>\<open>first_data_row = 7\<close> and
  \<^verbatim>\<open>last_data_row = 7 + n_students - 1\<close>.
\<close>

definition row6_lay :: "(int \<Rightarrow> string) \<Rightarrow> nat \<Rightarrow> layout \<Rightarrow> error + cell_write list" where
  "row6_lay L n_students lay =
     (let first_data_row = 7; last_data_row = 7 + int n_students - 1
      in case s_cols lay of
           [] \<Rightarrow> Inl IndexError
         | _ # _ \<Rightarrow>
             Inr (((6, ss_col lay), ss_value L lay 6)
                  # concat (map (\<lambda>t_idx.
                      ((6, s_cols lay ! t_idx), s_value L lay t_idx 6)
                      # map (\<lambda>p. ((6, point_col lay t_idx p),
                                  Str (average_formula L (point_col lay t_idx p)
                                         first_data_row last_data_row)))
                          (range_punkte lay t_idx))
                     [0..<n_teil lay])))"

definition row6 :: "(int \<Rightarrow> string) \<Rightarrow> nat \<Rightarrow> layout list \<Rightarrow> error + cell_write list" where
  "row6 L n_students lays =
     seq_writes (Inr [((6, 1), Str ''Durchschnittliche Punkte'')])
       (for_each (row6_lay L n_students) lays)"

text \<open>
  The student rows. A student is the three leading columns of its roster row, each
  already passed through \<^verbatim>\<open>str\<close>.
\<close>

record student =
  matr_nr :: string
  nachname :: string
  vorname :: string

definition student_row_lay :: "(int \<Rightarrow> string) \<Rightarrow> int \<Rightarrow> layout \<Rightarrow> error + cell_write list" where
  "student_row_lay L r lay =
     (case s_cols lay of
        [] \<Rightarrow> Inl IndexError
      | _ # _ \<Rightarrow>
          Inr (((r, ss_col lay), ss_value L lay r)
               # map (\<lambda>t_idx.
                   ((r, s_cols lay ! t_idx), s_value L lay t_idx r))
                  [0..<n_teil lay]))"

definition student_row ::
  "(int \<Rightarrow> string) \<Rightarrow> layout list \<Rightarrow> nat \<times> student \<Rightarrow> error + cell_write list" where
  "student_row L lays = (\<lambda>(s_idx, st).
     (let r = 7 + int s_idx
      in seq_writes
           (Inr [((r, 1), Num (int s_idx)), ((r, 2), Str (matr_nr st)),
                 ((r, 3), Str (nachname st)), ((r, 4), Str (vorname st))])
           (for_each (student_row_lay L r) lays)))"

definition student_rows ::
  "(int \<Rightarrow> string) \<Rightarrow> layout list \<Rightarrow> student list \<Rightarrow> error + cell_write list" where
  "student_rows L lays students_in_mappe =
     for_each (student_row L lays) (enumerate 0 students_in_mappe)"

text \<open>The sheet: the layout, then the rows in the order of the source.\<close>

definition mappe_writes ::
  "(int \<Rightarrow> string) \<Rightarrow> aufgabe list \<Rightarrow> student list \<Rightarrow> int \<Rightarrow> string \<Rightarrow> int \<times> int \<times> int
     \<Rightarrow> error + cell_write list" where
  "mappe_writes L aufgaben students_in_mappe mappe_nr semester exam_date =
     (let n_students = length students_in_mappe;
          aufgabe_layouts = compute_layout aufgaben
      in seq_writes
           (Inr (row1 aufgabe_layouts semester @ row2 aufgabe_layouts mappe_nr exam_date
                 @ row3 aufgabe_layouts @ row4 aufgabe_layouts))
           (seq_writes (row5 L aufgabe_layouts)
              (seq_writes (row6 L n_students aufgabe_layouts)
                 (student_rows L aufgabe_layouts students_in_mappe))))"

definition build_mappe_sheet ::
  "(int \<Rightarrow> string) \<Rightarrow> aufgabe list \<Rightarrow> student list \<Rightarrow> int \<Rightarrow> string \<Rightarrow> int \<times> int \<times> int
     \<Rightarrow> error + worksheet" where
  "build_mappe_sheet L aufgaben students_in_mappe mappe_nr semester exam_date =
     (case mappe_writes L aufgaben students_in_mappe mappe_nr semester exam_date of
        Inl e \<Rightarrow> Inl e
      | Inr writes \<Rightarrow> Inr (apply_writes Map.empty writes))"

section \<open>The overview sheet and the split into Mappen (\<^verbatim>\<open>generate_excel\<close>)\<close>

text \<open>
  \<^verbatim>\<open>build_studenten_sheet\<close>: the header row, then one row per student with
  \<^verbatim>\<open>mappe = idx // studis_pro_mappe + 1\<close> and \<^verbatim>\<open>stelle = idx % studis_pro_mappe\<close>. Python's
  \<^verbatim>\<open>//\<close> and \<^verbatim>\<open>%\<close> round to minus infinity, as \<open>div\<close> and \<open>mod\<close> on \<open>int\<close> do, and
  raise \<^verbatim>\<open>ZeroDivisionError\<close> for a zero divisor.
\<close>

definition studenten_headers :: "string list" where
  "studenten_headers =
     [''Mappe'', ''Stelle in Mappe'', ''KlausurCode'', ''Matrikelnummer'', ''Nachname'',
      ''Vorname'']"

definition studenten_row :: "int \<Rightarrow> nat \<times> student \<Rightarrow> error + cell_write list" where
  "studenten_row studis_pro_mappe = (\<lambda>(idx, row).
     (if studis_pro_mappe = 0 then Inl ZeroDivisionError
      else (let r = int idx + 2;
                mappe = int idx div studis_pro_mappe + 1;
                stelle = int idx mod studis_pro_mappe
            in Inr [((r, 1), Num mappe),
                    ((r, 2), Num stelle),
                    ((r, 3), Str (str_int mappe @ ''_'' @ str_int stelle)),
                    ((r, 4), Str (matr_nr row)),
                    ((r, 5), Str (nachname row)),
                    ((r, 6), Str (vorname row))])))"

definition studenten_writes :: "student list \<Rightarrow> int \<Rightarrow> error + cell_write list" where
  "studenten_writes students studis_pro_mappe =
     seq_writes
       (Inr (map (\<lambda>(c, h). ((1, int c), Str h)) (enumerate 1 studenten_headers)))
       (for_each (studenten_row studis_pro_mappe) (enumerate 0 students))"

definition build_studenten_sheet :: "student list \<Rightarrow> int \<Rightarrow> error + worksheet" where
  "build_studenten_sheet students studis_pro_mappe =
     (case studenten_writes students studis_pro_mappe of
        Inl e \<Rightarrow> Inl e
      | Inr writes \<Rightarrow> Inr (apply_writes Map.empty writes))"

text \<open>
  \<^verbatim>\<open>n_mappen = math.ceil(n_students / studis_pro_mappe)\<close>. Python divides in floating
  point; the quotient of two integers below \<open>2^53\<close> is rounded so that its ceiling is the
  exact one, and the model takes the exact ceiling.
\<close>

definition n_mappen_of :: "nat \<Rightarrow> int \<Rightarrow> error + int" where
  "n_mappen_of n_students studis_pro_mappe =
     (if studis_pro_mappe = 0 then Inl ZeroDivisionError
      else Inr \<lceil>real n_students / real_of_int studis_pro_mappe\<rceil>)"

text \<open>
  One iteration of \<^verbatim>\<open>for m in range(n_mappen)\<close>: the number of the Mappe and its students,
  \<^verbatim>\<open>students.iloc[start_idx:end_idx]\<close>.
\<close>

definition mappe_of :: "'a list \<Rightarrow> int \<Rightarrow> nat \<Rightarrow> int \<times> 'a list" where
  "mappe_of students studis_pro_mappe m =
     (let mappe_nr = int m + 1;
          start_idx = int m * studis_pro_mappe;
          end_idx = min (start_idx + studis_pro_mappe) (int (length students))
      in (mappe_nr, py_slice students start_idx end_idx))"

definition mappen :: "'a list \<Rightarrow> int \<Rightarrow> error + (int \<times> 'a list) list" where
  "mappen students studis_pro_mappe =
     (case n_mappen_of (length students) studis_pro_mappe of
        Inl e \<Rightarrow> Inl e
      | Inr n_mappen \<Rightarrow> Inr (map (mappe_of students studis_pro_mappe) [0..<nat n_mappen]))"

text \<open>The sheets of the workbook after the overview sheet, one per Mappe, in order.\<close>

fun mappe_sheets ::
  "(int \<Rightarrow> string) \<Rightarrow> aufgabe list \<Rightarrow> string \<Rightarrow> int \<times> int \<times> int
     \<Rightarrow> (int \<times> student list) list \<Rightarrow> error + (string \<times> worksheet) list" where
  "mappe_sheets L aufgaben semester exam_date [] = Inr []"
| "mappe_sheets L aufgaben semester exam_date ((mappe_nr, students_in_mappe) # rest) =
     (case build_mappe_sheet L aufgaben students_in_mappe mappe_nr semester exam_date of
        Inl e \<Rightarrow> Inl e
      | Inr ws \<Rightarrow>
          (case mappe_sheets L aufgaben semester exam_date rest of
             Inl e \<Rightarrow> Inl e
           | Inr sheets \<Rightarrow> Inr ((''Mappe '' @ str_int mappe_nr, ws) # sheets)))"

definition generate_excel ::
  "(int \<Rightarrow> string) \<Rightarrow> student list \<Rightarrow> aufgabe list \<Rightarrow> int \<Rightarrow> string \<Rightarrow> int \<times> int \<times> int
     \<Rightarrow> error + (string \<times> worksheet) list" where
  "generate_excel L students aufgaben studis_pro_mappe semester exam_date =
     (case mappen students studis_pro_mappe of
        Inl e \<Rightarrow> Inl e
      | Inr ms \<Rightarrow>
          (case build_studenten_sheet students studis_pro_mappe of
             Inl e \<Rightarrow> Inl e
           | Inr studenten \<Rightarrow>
               (case mappe_sheets L aufgaben semester exam_date ms of
                  Inl e \<Rightarrow> Inl e
                | Inr sheets \<Rightarrow> Inr ((''Studenten'', studenten) # sheets))))"

section \<open>Valid configurations, closed forms of the placement, examples\<close>

text \<open>
  The configurations of the specification: at least one task, every task with at least
  one subtask, every subtask with a point count of at least 1.
\<close>

definition valid_config :: "aufgabe list \<Rightarrow> bool" where
  "valid_config cfg \<longleftrightarrow>
     cfg \<noteq> [] \<and>
     (\<forall>a \<in> set cfg. teilaufgaben a \<noteq> [] \<and> (\<forall>t \<in> set (teilaufgaben a). 1 \<le> punkte t))"

text \<open>The invariant of the editor: at least one task, every task with a subtask.\<close>

definition non_empty_config :: "aufgabe list \<Rightarrow> bool" where
  "non_empty_config cfg \<longleftrightarrow> cfg \<noteq> [] \<and> (\<forall>a \<in> set cfg. teilaufgaben a \<noteq> [])"

text \<open>\<open>consecutive c n\<close> is the run of \<open>n\<close> columns \<open>c, c + 1, ..., c + n - 1\<close>.\<close>

definition consecutive :: "int \<Rightarrow> nat \<Rightarrow> int list" where
  "consecutive c n = map (\<lambda>i. c + int i) [0..<n]"

text \<open>
  The two-phase placement in the words of the specification, as closed forms: the
  summary block of a task has width \<open>1 + subtask_count\<close>; the block of task \<open>a\<close> starts
  after the blocks of the tasks before it; the point run of subtask \<open>t\<close> of task \<open>a\<close>
  starts after all the summary blocks, the point runs of the tasks before \<open>a\<close> and the
  point runs of the subtasks before \<open>t\<close>. The first column is the one the source starts
  its cursor at.
\<close>

definition first_col :: int where
  "first_col = 6"

definition block_width :: "aufgabe \<Rightarrow> int" where
  "block_width a = 1 + int (length (teilaufgaben a))"

definition summary_width :: "aufgabe list \<Rightarrow> int" where
  "summary_width cfg = sum_list (map block_width cfg)"

definition task_points :: "aufgabe \<Rightarrow> int" where
  "task_points a = sum_list (map punkte (teilaufgaben a))"

definition total_points :: "aufgabe list \<Rightarrow> int" where
  "total_points cfg = sum_list (map task_points cfg)"

definition spec_ss_col :: "aufgabe list \<Rightarrow> nat \<Rightarrow> int" where
  "spec_ss_col cfg a = first_col + summary_width (take a cfg)"

definition spec_point_start :: "aufgabe list \<Rightarrow> nat \<Rightarrow> nat \<Rightarrow> int" where
  "spec_point_start cfg a t =
     first_col + summary_width cfg + total_points (take a cfg)
     + sum_list (map punkte (take t (teilaufgaben (cfg ! a))))"

text \<open>
  All the columns a layout assigns: the summary columns (SS, then the S columns, task by
  task) and the point columns (run by run).
\<close>

definition summary_cols :: "layout list \<Rightarrow> int list" where
  "summary_cols lays = concat (map (\<lambda>lay. ss_col lay # s_cols lay) lays)"

definition point_cols :: "layout list \<Rightarrow> int list" where
  "point_cols lays =
     concat (map (\<lambda>lay.
       concat (map (\<lambda>t_idx. map (point_col lay t_idx) (range_punkte lay t_idx))
                 [0..<n_teil lay]))
      lays)"

text \<open>A weaker condition that the column lemmas need: no point count is negative.\<close>

definition nonneg_points :: "aufgabe list \<Rightarrow> bool" where
  "nonneg_points cfg \<longleftrightarrow> (\<forall>a \<in> set cfg. \<forall>t \<in> set (teilaufgaben a). 0 \<le> punkte t)"

text \<open>
  A scenario of the specification: two tasks with 2 and 3 subtasks (of 4 points each,
  as the editor creates them).
\<close>

definition scenario_config :: "aufgabe list" where
  "scenario_config =
     [default_aufgabe,
      \<lparr> teilaufgaben = [default_teilaufgabe, default_teilaufgabe, default_teilaufgabe] \<rparr>]"

text \<open>
  For the examples: a column-letter function that is right for columns 1 to 26, and a
  student.
\<close>

definition example_letter :: "int \<Rightarrow> string" where
  "example_letter c = [''ABCDEFGHIJKLMNOPQRSTUVWXYZ'' ! nat (c - 1)]"

definition example_student :: student where
  "example_student = \<lparr> matr_nr = ''100000'', nachname = ''Mueller'', vorname = ''Anna'' \<rparr>"


text \<open>
  A device for the proofs: the cells that one of the formula rows writes for one layout
  entry, as a set. \<open>r\<close> is the row, \<open>A\<close> the value of the SS cell, \<open>B t\<close> the value of
  the S cell of subtask \<open>t\<close>, and \<open>C t p\<close> the value of point cell \<open>p\<close> of subtask \<open>t\<close>
  for the \<open>p\<close> in \<open>P t\<close>.
\<close>

definition cells_of ::
  "int \<Rightarrow> cell_value \<Rightarrow> (nat \<Rightarrow> cell_value) \<Rightarrow> (nat \<Rightarrow> nat \<Rightarrow> cell_value) \<Rightarrow> (nat \<Rightarrow> nat set)
     \<Rightarrow> layout \<Rightarrow> cell_write set" where
  "cells_of r A B C P lay =
     insert ((r, ss_col lay), A)
       (\<Union>t \<in> {0..<n_teil lay}.
          insert ((r, s_cols lay ! t), B t) ((\<lambda>p. ((r, point_col lay t p), C t p)) ` P t))"

section \<open>The editor keeps the configuration well formed\<close>

lemma py_index_bound: "py_index xs i = Inr j \<Longrightarrow> j < length xs"
  by (auto simp: py_index_def Let_def split: if_splits)

lemma synced_descriptions_eq:
  "0 \<le> n \<Longrightarrow> synced_descriptions old n = take (nat n) old @ replicate (nat n - length old) []"
  by (auto simp: synced_descriptions_def py_slice_def Let_def min_def)

text \<open>
  C9: for every subtask that the indices address and every new point count (a count, so
  not negative), \<^verbatim>\<open>_sync_descriptions\<close> succeeds; afterwards the stored point count is
  \<open>new_punkte\<close> and the descriptions have exactly that length. They are the first
  \<open>new_punkte\<close> old descriptions (all of them when growing), followed by empty strings
  up to the new length: growing pads at the end, shrinking truncates, and the common
  prefix is kept.
\<close>

theorem sync_descriptions_length:
  assumes "py_index aufgaben a_idx = Inr j"
    and "py_index (teilaufgaben (aufgaben ! j)) t_idx = Inr i"
    and "0 \<le> new_punkte"
  shows "\<exists>aufgaben'. sync_descriptions aufgaben a_idx t_idx new_punkte = Inr aufgaben' \<and>
           (let old = descriptions (teilaufgaben (aufgaben ! j) ! i);
                ta' = teilaufgaben (aufgaben' ! j) ! i
            in punkte ta' = new_punkte \<and>
               int (length (descriptions ta')) = punkte ta' \<and>
               descriptions ta' =
                 take (nat new_punkte) old @ replicate (nat new_punkte - length old) [])"
proof -
  have j: "j < length aufgaben" using assms(1) by (rule py_index_bound)
  have i: "i < length (teilaufgaben (aufgaben ! j))" using assms(2) by (rule py_index_bound)
  show ?thesis
    using assms j i by (simp add: sync_descriptions_def Let_def synced_descriptions_eq)
qed

text \<open>
  The scenario of the specification: a subtask of 4 points, addressed from the end of
  its task, shrinks to 2 points and keeps its first two descriptions.
\<close>

theorem sync_descriptions_length_witness:
  "py_index [\<lparr>teilaufgaben = [default_teilaufgabe,
       \<lparr>punkte = 4, descriptions = [''w'', ''x'', ''y'', ''z'']\<rparr>]\<rparr>] 0 = Inr 0 \<and>
   py_index [default_teilaufgabe, \<lparr>punkte = 4, descriptions = [''w'', ''x'', ''y'', ''z'']\<rparr>] (- 1)
     = Inr 1 \<and>
   (\<exists>aufgaben'.
      sync_descriptions [\<lparr>teilaufgaben = [default_teilaufgabe,
          \<lparr>punkte = 4, descriptions = [''w'', ''x'', ''y'', ''z'']\<rparr>]\<rparr>] 0 (- 1) 2 = Inr aufgaben' \<and>
      punkte (teilaufgaben (aufgaben' ! 0) ! 1) = 2 \<and>
      length (descriptions (teilaufgaben (aufgaben' ! 0) ! 1)) = 2 \<and>
      descriptions (teilaufgaben (aufgaben' ! 0) ! 1) = [''w'', ''x''])"
  using sync_descriptions_length [of "[\<lparr>teilaufgaben = [default_teilaufgabe,
       \<lparr>punkte = 4, descriptions = [''w'', ''x'', ''y'', ''z'']\<rparr>]\<rparr>]" 0 0 "- 1" 1 2]
  by (auto simp: py_index_def Let_def)

lemma pop_props: "pop xs i = Inr ys \<Longrightarrow> Suc (length ys) = length xs \<and> set ys \<subseteq> set xs"
  apply (auto simp: pop_def split: sum.splits dest!: py_index_bound)
   apply (meson in_set_takeD)
  by (meson in_set_dropD)

lemma non_empty_update:
  "non_empty_config s \<Longrightarrow> teilaufgaben a \<noteq> [] \<Longrightarrow> non_empty_config (s[j := a])"
  by (auto simp: non_empty_config_def dest!: set_update_subset_insert[THEN subsetD])

lemma apply_op_non_empty:
  assumes "non_empty_config s" and "apply_op s ev = Inr s'"
  shows "non_empty_config s'"
proof (cases ev)
  case AddAufgabe
  then show ?thesis using assms
    by (auto simp: add_aufgabe_def non_empty_config_def default_aufgabe_def)
next
  case (RemoveAufgabe idx)
  then show ?thesis using assms
    by (auto simp: remove_aufgabe_def non_empty_config_def split: if_splits dest!: pop_props)
next
  case (AddTeilaufgabe a_idx)
  then show ?thesis using assms
    by (auto simp: add_teilaufgabe_def split: sum.splits intro!: non_empty_update)
next
  case (RemoveTeilaufgabe a_idx t_idx)
  then show ?thesis using assms
    by (auto simp: remove_teilaufgabe_def Let_def split: sum.splits if_splits
        intro!: non_empty_update dest!: pop_props)
next
  case (SyncDescriptions a_idx t_idx n)
  then show ?thesis using assms
    by (auto simp: sync_descriptions_def Let_def split: sum.splits
        intro!: non_empty_update dest!: py_index_bound)
next
  case (SetDescription a t p d)
  then show ?thesis using assms
    by (auto simp: set_description_def Let_def split: if_splits intro!: non_empty_update)
qed

lemma init_non_empty: "non_empty_config (init_state None)"
  by (simp add: init_state_def non_empty_config_def default_aufgabe_def)

lemma reachable_non_empty: "reachable s \<Longrightarrow> non_empty_config s"
  by (induction rule: reachable.induct) (auto intro: init_non_empty apply_op_non_empty)

lemma reachable_single: "reachable [\<lparr>teilaufgaben = [default_teilaufgabe]\<rparr>]"
proof -
  have "apply_op (init_state None) (RemoveTeilaufgabe 0 0)
          = Inr [\<lparr>teilaufgaben = [default_teilaufgabe]\<rparr>]"
    by (simp add: init_state_def default_aufgabe_def remove_teilaufgabe_def py_index_def
        pop_def Let_def)
  with reachable.init show ?thesis by (rule reachable.step)
qed

text \<open>
  C10: \<^verbatim>\<open>_remove_aufgabe\<close> changes nothing when at most one task is left, whatever the
  index; \<^verbatim>\<open>_remove_teilaufgabe\<close> changes nothing when the addressed task has at most one
  subtask, whatever the subtask index. Every editor operation that returns keeps ``at
  least one task, every task with at least one subtask'', so every configuration
  reachable from the initial one has it.
\<close>

theorem removal_keeps_non_empty:
  "(length s \<le> 1 \<longrightarrow> remove_aufgabe s idx = Inr s) \<and>
   (py_index s a_idx = Inr j \<and> length (teilaufgaben (s ! j)) \<le> 1
      \<longrightarrow> remove_teilaufgabe s a_idx t_idx = Inr s) \<and>
   (non_empty_config s \<and> apply_op s ev = Inr s' \<longrightarrow> non_empty_config s') \<and>
   (reachable s \<longrightarrow> non_empty_config s)"
  using apply_op_non_empty [of s ev s'] reachable_non_empty [of s]
  by (auto simp: remove_aufgabe_def remove_teilaufgabe_def Let_def)

text \<open>
  The configuration of one task with one subtask: reachable, and both removals leave
  it as it is.
\<close>

theorem removal_keeps_non_empty_witness:
  "length [\<lparr>teilaufgaben = [default_teilaufgabe]\<rparr>] \<le> 1 \<and>
   remove_aufgabe [\<lparr>teilaufgaben = [default_teilaufgabe]\<rparr>] 0
     = Inr [\<lparr>teilaufgaben = [default_teilaufgabe]\<rparr>] \<and>
   py_index [\<lparr>teilaufgaben = [default_teilaufgabe]\<rparr>] 0 = Inr 0 \<and>
   length (teilaufgaben ([\<lparr>teilaufgaben = [default_teilaufgabe]\<rparr>] ! 0)) \<le> 1 \<and>
   remove_teilaufgabe [\<lparr>teilaufgaben = [default_teilaufgabe]\<rparr>] 0 0
     = Inr [\<lparr>teilaufgaben = [default_teilaufgabe]\<rparr>] \<and>
   apply_op [\<lparr>teilaufgaben = [default_teilaufgabe]\<rparr>] (RemoveTeilaufgabe 0 0)
     = Inr [\<lparr>teilaufgaben = [default_teilaufgabe]\<rparr>] \<and>
   reachable [\<lparr>teilaufgaben = [default_teilaufgabe]\<rparr>] \<and>
   non_empty_config [\<lparr>teilaufgaben = [default_teilaufgabe]\<rparr>]"
proof -
  have idx: "py_index [\<lparr>teilaufgaben = [default_teilaufgabe]\<rparr>] 0 = Inr 0"
    by (simp add: py_index_def)
  show ?thesis
    using removal_keeps_non_empty [of "[\<lparr>teilaufgaben = [default_teilaufgabe]\<rparr>]" 0 0 0 0
        "RemoveTeilaufgabe 0 0" "[\<lparr>teilaufgaben = [default_teilaufgabe]\<rparr>]"]
      reachable_single idx
    by simp
qed

section \<open>The column layout\<close>

lemma phase1_length: "length (fst (phase1 col cfg)) = length cfg"
  by (induction cfg arbitrary: col) (auto simp: Let_def split_beta)

lemma phase1_snd: "snd (phase1 col cfg) = col + summary_width cfg"
  by (induction cfg arbitrary: col)
    (auto simp: Let_def summary_width_def block_width_def split_beta)

lemma phase1_nth:
  "a < length cfg \<Longrightarrow>
   fst (phase1 col cfg) ! a =
     \<lparr> teil_punkte = map punkte (teilaufgaben (cfg ! a)),
       teil_descriptions = map descriptions (teilaufgaben (cfg ! a)),
       n_teil = length (teilaufgaben (cfg ! a)),
       ss_col = col + summary_width (take a cfg),
       s_cols = map (\<lambda>t. col + summary_width (take a cfg) + 1 + int t)
                  [0..<length (teilaufgaben (cfg ! a))],
       sum_block_end = col + summary_width (take a cfg) + int (length (teilaufgaben (cfg ! a))),
       teil_point_starts = [] \<rparr>"
proof (induction cfg arbitrary: col a)
  case Nil
  then show ?case by simp
next
  case (Cons x cfg)
  show ?case
  proof (cases a)
    case 0
    then show ?thesis by (simp add: Let_def summary_width_def split_beta)
  next
    case (Suc b)
    with Cons.prems have b: "b < length cfg" by simp
    show ?thesis
      using Cons.IH [OF b, of "col + int (length (teilaufgaben x)) + 1"] Suc
      by (simp add: Let_def summary_width_def block_width_def split_beta add.assoc)
  qed
qed

lemma point_starts_fst:
  "fst (point_starts col pts) = map (\<lambda>t. col + sum_list (take t pts)) [0..<length pts]"
proof (induction pts arbitrary: col)
  case Nil
  then show ?case by simp
next
  case (Cons p pts)
  have "[0..<length (p # pts)] = 0 # map Suc [0..<length pts]"
    by (simp add: upt_conv_Cons map_Suc_upt del: upt_Suc)
  then show ?case using Cons.IH [of "col + p"]
    by (simp add: split_beta comp_def add.assoc del: upt_Suc)
qed

lemma point_starts_snd: "snd (point_starts col pts) = col + sum_list pts"
  by (induction pts arbitrary: col) (auto simp: split_beta)

lemma phase2_length: "length (fst (phase2 col lays)) = length lays"
  by (induction lays arbitrary: col) (auto simp: split_beta)

lemma phase2_snd:
  "snd (phase2 col lays) = col + sum_list (map (\<lambda>lay. sum_list (teil_punkte lay)) lays)"
  by (induction lays arbitrary: col) (auto simp: split_beta point_starts_snd)

lemma phase2_nth:
  "a < length lays \<Longrightarrow>
   fst (phase2 col lays) ! a =
     (lays ! a)\<lparr> teil_point_starts :=
        teil_point_starts (lays ! a)
        @ map (\<lambda>t. col + sum_list (map (\<lambda>lay. sum_list (teil_punkte lay)) (take a lays))
                  + sum_list (take t (teil_punkte (lays ! a))))
            [0..<length (teil_punkte (lays ! a))] \<rparr>"
proof (induction lays arbitrary: col a)
  case Nil
  then show ?case by simp
next
  case (Cons x lays)
  show ?case
  proof (cases a)
    case 0
    then show ?thesis by (simp add: split_beta point_starts_fst)
  next
    case (Suc b)
    with Cons.prems have b: "b < length lays" by simp
    show ?thesis
      using Cons.IH [OF b, of "col + sum_list (teil_punkte x)"] Suc
      by (simp add: split_beta point_starts_snd add.assoc)
  qed
qed

lemma compute_layout_length: "length (compute_layout cfg) = length cfg"
  by (simp add: compute_layout_def split_beta phase2_length phase1_length)

lemma phase1_points:
  "map (\<lambda>lay. sum_list (teil_punkte lay)) (take a (fst (phase1 col cfg))) = map task_points (take a cfg)"
  by (induction cfg arbitrary: col a) (auto simp: Let_def split_beta task_points_def take_Cons split: nat.splits)

lemma compute_layout_nth:
  assumes "a < length cfg"
  shows "compute_layout cfg ! a =
     \<lparr> teil_punkte = map punkte (teilaufgaben (cfg ! a)),
       teil_descriptions = map descriptions (teilaufgaben (cfg ! a)),
       n_teil = length (teilaufgaben (cfg ! a)),
       ss_col = spec_ss_col cfg a,
       s_cols = map (\<lambda>t. spec_ss_col cfg a + 1 + int t) [0..<length (teilaufgaben (cfg ! a))],
       sum_block_end = spec_ss_col cfg a + int (length (teilaufgaben (cfg ! a))),
       teil_point_starts = map (spec_point_start cfg a) [0..<length (teilaufgaben (cfg ! a))] \<rparr>"
proof -
  have a': "a < length (fst (phase1 6 cfg))" using assms by (simp add: phase1_length)
  show ?thesis
    using assms
    by (simp add: compute_layout_def split_beta phase2_nth [OF a'] phase1_nth phase1_snd
        phase1_points spec_ss_col_def spec_point_start_def first_col_def total_points_def
        take_map)
qed


lemma layout_lengths:
  assumes "lay \<in> set (compute_layout cfg)"
  shows "length (s_cols lay) = n_teil lay \<and> length (teil_punkte lay) = n_teil lay \<and>
         length (teil_point_starts lay) = n_teil lay \<and>
         length (teil_descriptions lay) = n_teil lay"
proof -
  from assms obtain a where a: "a < length cfg" and lay: "lay = compute_layout cfg ! a"
    by (auto simp: in_set_conv_nth compute_layout_length)
  show ?thesis unfolding lay by (simp add: compute_layout_nth [OF a])
qed

lemma consecutive_append:
  "consecutive c n @ consecutive (c + int n) m = consecutive c (n + m)"
proof -
  have a: "[0..<n + m] = [0..<n] @ [n..<n + m]"
    using upt_add_eq_append [of 0 n m] by simp
  have b: "[n..<n + m] = map (\<lambda>i. i + n) [0..<m]"
    using map_add_upt [of n m] by (simp add: add.commute)
  have "consecutive c (n + m) = map (\<lambda>i. c + int i) [0..<n] @ map (\<lambda>i. c + int i) (map (\<lambda>i. i + n) [0..<m])"
    unfolding consecutive_def a b by simp
  also have "map (\<lambda>i. c + int i) (map (\<lambda>i. i + n) [0..<m]) = map (\<lambda>i. c + int n + int i) [0..<m]"
    by (simp add: comp_def add.assoc add.commute)
  finally show ?thesis by (simp add: consecutive_def)
qed

lemma set_consecutive: "set (consecutive c n) = {c ..< c + int n}"
proof -
  have "\<And>x. c \<le> x \<Longrightarrow> x < c + int n \<Longrightarrow> x \<in> (\<lambda>i. c + int i) ` {0..<n}"
  proof -
    fix x assume "c \<le> x" "x < c + int n"
    then have "x = c + int (nat (x - c))" "nat (x - c) \<in> {0..<n}" by auto
    then show "x \<in> (\<lambda>i. c + int i) ` {0..<n}" by (rule image_eqI)
  qed
  then show ?thesis by (auto simp: consecutive_def)
qed

lemma distinct_consecutive: "distinct (consecutive c n)"
  by (simp add: consecutive_def distinct_map inj_on_def)

lemma summary_width_nonneg: "0 \<le> summary_width cfg"
  by (induction cfg) (auto simp: summary_width_def block_width_def)

lemma summary_width_Suc:
  "a < length cfg \<Longrightarrow> summary_width (take (Suc a) cfg) = summary_width (take a cfg) + block_width (cfg ! a)"
  by (simp add: take_Suc_conv_app_nth summary_width_def)

lemma summary_width_mono:
  "a \<le> b \<Longrightarrow> summary_width (take a cfg) \<le> summary_width (take b cfg)"
proof -
  assume "a \<le> b"
  then have "take b cfg = take a cfg @ take (b - a) (drop a cfg)"
    by (metis le_add_diff_inverse take_add)
  then show ?thesis
    using summary_width_nonneg [of "take (b - a) (drop a cfg)"] by (simp add: summary_width_def)
qed

lemma summary_width_take_le: "summary_width (take a cfg) \<le> summary_width cfg"
  using summary_width_mono [of a "length cfg" cfg] by (cases "a \<le> length cfg") auto

lemma summary_cols_prefix:
  "k \<le> length cfg \<Longrightarrow>
   summary_cols (take k (compute_layout cfg)) = consecutive first_col (nat (summary_width (take k cfg)))"
proof (induction k)
  case 0
  then show ?case by (simp add: summary_cols_def consecutive_def summary_width_def)
next
  case (Suc k)
  then have k: "k < length cfg" by simp
  then have k': "k < length (compute_layout cfg)" by (simp add: compute_layout_length)
  have blk: "ss_col (compute_layout cfg ! k) # s_cols (compute_layout cfg ! k)
      = consecutive (first_col + summary_width (take k cfg)) (nat (block_width (cfg ! k)))"
  proof -
    have "[0..<Suc (length (teilaufgaben (cfg ! k)))] = 0 # map Suc [0..<length (teilaufgaben (cfg ! k))]"
      by (simp add: upt_conv_Cons map_Suc_upt del: upt_Suc)
    then show ?thesis
      by (simp add: compute_layout_nth [OF k] consecutive_def block_width_def spec_ss_col_def
          nat_add_distrib comp_def add.assoc del: upt_Suc)
  qed
  have "summary_cols (take (Suc k) (compute_layout cfg))
      = summary_cols (take k (compute_layout cfg))
        @ (ss_col (compute_layout cfg ! k) # s_cols (compute_layout cfg ! k))"
    by (simp add: take_Suc_conv_app_nth [OF k'] summary_cols_def)
  also have "\<dots> = consecutive first_col (nat (summary_width (take k cfg)))
        @ consecutive (first_col + int (nat (summary_width (take k cfg)))) (nat (block_width (cfg ! k)))"
    using Suc.IH k blk by (simp add: summary_width_nonneg)
  also have "\<dots> = consecutive first_col (nat (summary_width (take (Suc k) cfg)))"
    using consecutive_append [of first_col "nat (summary_width (take k cfg))" "nat (block_width (cfg ! k))"]
    by (simp add: summary_width_Suc [OF k] nat_add_distrib summary_width_nonneg block_width_def)
  finally show ?case .
qed

lemma summary_cols_eq:
  "summary_cols (compute_layout cfg) = consecutive first_col (nat (summary_width cfg))"
  using summary_cols_prefix [of "length cfg" cfg] by (simp add: compute_layout_length)


lemma runs_prefix:
  assumes "\<forall>p \<in> set pts. 0 \<le> p" and "t \<le> length pts"
  shows "concat (map (\<lambda>u. consecutive (c + sum_list (take u pts)) (nat (pts ! u))) [0..<t])
         = consecutive c (nat (sum_list (take t pts)))"
  using assms(2)
proof (induction t)
  case 0
  then show ?case by (simp add: consecutive_def)
next
  case (Suc t)
  then have t: "t < length pts" by simp
  have nn: "0 \<le> sum_list (take t pts)"
    using assms(1) by (auto intro!: sum_list_nonneg dest: in_set_takeD)
  have pt: "0 \<le> pts ! t" using assms(1) t by simp
  have "concat (map (\<lambda>u. consecutive (c + sum_list (take u pts)) (nat (pts ! u))) [0..<Suc t])
      = consecutive c (nat (sum_list (take t pts)))
        @ consecutive (c + int (nat (sum_list (take t pts)))) (nat (pts ! t))"
    using Suc.IH t nn by simp
  also have "\<dots> = consecutive c (nat (sum_list (take t pts)) + nat (pts ! t))"
    by (rule consecutive_append)
  also have "nat (sum_list (take t pts)) + nat (pts ! t) = nat (sum_list (take (Suc t) pts))"
    using nn pt t by (simp add: take_Suc_conv_app_nth nat_add_distrib)
  finally show ?case .
qed

lemma valid_nonneg: "valid_config cfg \<Longrightarrow> nonneg_points cfg"
  by (fastforce simp: valid_config_def nonneg_points_def)

lemma task_points_nonneg: "nonneg_points cfg \<Longrightarrow> a \<in> set cfg \<Longrightarrow> 0 \<le> task_points a"
  by (auto simp: nonneg_points_def task_points_def intro!: sum_list_nonneg)

lemma total_points_nonneg: "nonneg_points cfg \<Longrightarrow> 0 \<le> total_points (take k cfg)"
  by (auto simp: total_points_def intro!: sum_list_nonneg task_points_nonneg dest: in_set_takeD)

lemma task_point_cols:
  assumes "nonneg_points cfg" and a: "a < length cfg"
  shows "concat (map (\<lambda>t. map (point_col (compute_layout cfg ! a) t)
                            (range_punkte (compute_layout cfg ! a) t))
                   [0..<n_teil (compute_layout cfg ! a)])
         = consecutive (spec_point_start cfg a 0) (nat (task_points (cfg ! a)))"
proof -
  let ?ts = "teilaufgaben (cfg ! a)"
  let ?pts = "map punkte ?ts"
  let ?c = "spec_point_start cfg a 0"
  have nn: "\<forall>p \<in> set ?pts. 0 \<le> p"
    using assms by (auto simp: nonneg_points_def)
  have "map (\<lambda>t. map (point_col (compute_layout cfg ! a) t) (range_punkte (compute_layout cfg ! a) t))
          [0..<n_teil (compute_layout cfg ! a)]
      = map (\<lambda>u. consecutive (?c + sum_list (take u ?pts)) (nat (?pts ! u))) [0..<length ?pts]"
    by (rule map_cong)
      (simp_all add: compute_layout_nth [OF a] point_col_def range_punkte_def consecutive_def
        spec_point_start_def take_map)
  then show ?thesis
    using runs_prefix [OF nn, of "length ?pts" ?c] by (simp add: task_points_def)
qed

lemma spec_point_start_0:
  "spec_point_start cfg a 0 = first_col + summary_width cfg + total_points (take a cfg)"
  by (simp add: spec_point_start_def)

lemma point_cols_prefix:
  assumes "nonneg_points cfg"
  shows "k \<le> length cfg \<Longrightarrow>
   point_cols (take k (compute_layout cfg))
     = consecutive (first_col + summary_width cfg) (nat (total_points (take k cfg)))"
proof (induction k)
  case 0
  then show ?case by (simp add: point_cols_def consecutive_def total_points_def)
next
  case (Suc k)
  then have k: "k < length cfg" by simp
  then have k': "k < length (compute_layout cfg)" by (simp add: compute_layout_length)
  have nn: "0 \<le> total_points (take k cfg)" using assms by (rule total_points_nonneg)
  have tp: "0 \<le> task_points (cfg ! k)" using assms k by (auto intro: task_points_nonneg)
  have "point_cols (take (Suc k) (compute_layout cfg))
      = point_cols (take k (compute_layout cfg))
        @ consecutive (spec_point_start cfg k 0) (nat (task_points (cfg ! k)))"
    by (simp add: take_Suc_conv_app_nth [OF k'] point_cols_def task_point_cols [OF assms k])
  also have "\<dots> = consecutive (first_col + summary_width cfg) (nat (total_points (take k cfg)))
        @ consecutive (first_col + summary_width cfg + int (nat (total_points (take k cfg))))
            (nat (task_points (cfg ! k)))"
    using Suc.IH k nn by (simp add: spec_point_start_0)
  also have "\<dots> = consecutive (first_col + summary_width cfg)
        (nat (total_points (take k cfg)) + nat (task_points (cfg ! k)))"
    by (rule consecutive_append)
  also have "nat (total_points (take k cfg)) + nat (task_points (cfg ! k))
      = nat (total_points (take (Suc k) cfg))"
    using nn tp k by (simp add: take_Suc_conv_app_nth nat_add_distrib total_points_def)
  finally show ?case .
qed

lemma point_cols_eq:
  "nonneg_points cfg \<Longrightarrow>
   point_cols (compute_layout cfg) = consecutive (first_col + summary_width cfg) (nat (total_points cfg))"
  using point_cols_prefix [of cfg "length cfg"] by (simp add: compute_layout_length)


lemma spec_ss_col_steps:
  "spec_ss_col cfg 0 = first_col"
  "a < length cfg \<Longrightarrow> spec_ss_col cfg (Suc a) = spec_ss_col cfg a + block_width (cfg ! a)"
  by (simp_all add: spec_ss_col_def summary_width_Suc) (simp add: summary_width_def)

lemma spec_point_start_steps:
  "spec_point_start cfg 0 0 = first_col + summary_width cfg"
  "t < length (teilaufgaben (cfg ! a)) \<Longrightarrow>
     spec_point_start cfg a (Suc t) = spec_point_start cfg a t + punkte (teilaufgaben (cfg ! a) ! t)"
  "a < length cfg \<Longrightarrow>
     spec_point_start cfg (Suc a) 0 = spec_point_start cfg a (length (teilaufgaben (cfg ! a)))"
  by (simp_all add: spec_point_start_def total_points_def take_Suc_conv_app_nth task_points_def)

text \<open>
  C1: the allocator returns one layout per task, and its columns are those of the
  two-phase placement with one cursor. Phase 1: the block of the first task starts at
  the first column; the block of each task is its SS column followed at once by one S
  column per subtask (width 1 + subtask count), and the next block starts right after
  it. Phase 2 starts where the last summary block ends; in task order, and in subtask
  order within a task, every subtask gets its start column recorded and the next run
  starts \<open>punkte\<close> columns later.
\<close>

theorem two_phase_layout:
  assumes "a < length cfg"
  shows "length (compute_layout cfg) = length cfg \<and>
    (let lay = compute_layout cfg ! a; ts = teilaufgaben (cfg ! a)
     in n_teil lay = length ts \<and>
        teil_punkte lay = map punkte ts \<and>
        ss_col lay = spec_ss_col cfg a \<and>
        s_cols lay = consecutive (ss_col lay + 1) (length ts) \<and>
        sum_block_end lay = ss_col lay + int (length ts) \<and>
        teil_point_starts lay = map (spec_point_start cfg a) [0..<length ts]) \<and>
    spec_ss_col cfg 0 = first_col \<and>
    spec_ss_col cfg (Suc a) = spec_ss_col cfg a + (1 + int (length (teilaufgaben (cfg ! a)))) \<and>
    spec_point_start cfg 0 0 = spec_ss_col cfg (length cfg) \<and>
    (\<forall>t < length (teilaufgaben (cfg ! a)).
       spec_point_start cfg a (Suc t)
         = spec_point_start cfg a t + punkte (teilaufgaben (cfg ! a) ! t)) \<and>
    spec_point_start cfg (Suc a) 0 = spec_point_start cfg a (length (teilaufgaben (cfg ! a)))"
  using assms
  by (simp add: compute_layout_length compute_layout_nth Let_def consecutive_def
      spec_ss_col_steps spec_point_start_steps block_width_def)
    (simp add: spec_ss_col_def)

text \<open>The second task of the scenario: block 9 to 12, runs at 21, 25 and 29.\<close>

theorem two_phase_layout_witness:
  "1 < length scenario_config \<and>
   length (compute_layout scenario_config) = 2 \<and>
   ss_col (compute_layout scenario_config ! 1) = 9 \<and>
   s_cols (compute_layout scenario_config ! 1) = [10, 11, 12] \<and>
   sum_block_end (compute_layout scenario_config ! 1) = 12 \<and>
   teil_point_starts (compute_layout scenario_config ! 1) = [21, 25, 29]"
  using two_phase_layout [of 1 scenario_config]
  by (simp add: scenario_config_def Let_def consecutive_def spec_ss_col_def spec_point_start_def
      summary_width_def block_width_def total_points_def task_points_def first_col_def
      default_aufgabe_def default_teilaufgabe_def upt_conv_Cons)

text \<open>
  C2: for every configuration of the specification, the summary columns are one
  contiguous run from the first column, the point columns one contiguous run right
  after it, all assigned columns are pairwise distinct, and every summary column is
  strictly left of every point column.
\<close>

theorem columns_distinct_contiguous_ordered:
  assumes "valid_config cfg"
  shows "summary_cols (compute_layout cfg) = consecutive first_col (nat (summary_width cfg)) \<and>
    point_cols (compute_layout cfg)
      = consecutive (first_col + summary_width cfg) (nat (total_points cfg)) \<and>
    distinct (summary_cols (compute_layout cfg) @ point_cols (compute_layout cfg)) \<and>
    (\<forall>s \<in> set (summary_cols (compute_layout cfg)).
       \<forall>p \<in> set (point_cols (compute_layout cfg)). s < p)"
proof -
  have nn: "nonneg_points cfg" using assms by (rule valid_nonneg)
  have s: "summary_cols (compute_layout cfg) = consecutive first_col (nat (summary_width cfg))"
    by (rule summary_cols_eq)
  have p: "point_cols (compute_layout cfg)
      = consecutive (first_col + summary_width cfg) (nat (total_points cfg))"
    using nn by (rule point_cols_eq)
  have lt: "\<forall>x \<in> set (summary_cols (compute_layout cfg)).
       \<forall>y \<in> set (point_cols (compute_layout cfg)). x < y"
    unfolding s p set_consecutive using summary_width_nonneg [of cfg] by auto
  then have "set (summary_cols (compute_layout cfg)) \<inter> set (point_cols (compute_layout cfg)) = {}"
    by fastforce
  then have "distinct (summary_cols (compute_layout cfg) @ point_cols (compute_layout cfg))"
    unfolding distinct_append using s p by (simp add: distinct_consecutive)
  with s p lt show ?thesis by blast
qed


lemma valid_scenario_config: "valid_config scenario_config"
  by (simp add: valid_config_def scenario_config_def default_aufgabe_def default_teilaufgabe_def)

text \<open>The scenario: summary columns 6 to 12, then the 20 point columns from 13 on.\<close>

theorem columns_distinct_contiguous_ordered_witness:
  "valid_config scenario_config \<and>
   summary_cols (compute_layout scenario_config) = [6, 7, 8, 9, 10, 11, 12] \<and>
   point_cols (compute_layout scenario_config) = consecutive 13 20 \<and>
   distinct (summary_cols (compute_layout scenario_config)
             @ point_cols (compute_layout scenario_config)) \<and>
   12 < hd (point_cols (compute_layout scenario_config))"
proof -
  have w: "summary_width scenario_config = 7" "total_points scenario_config = 20"
    by (simp_all add: scenario_config_def summary_width_def block_width_def total_points_def
        task_points_def default_aufgabe_def default_teilaufgabe_def)
  have c: "consecutive 6 7 = [6, 7, 8, 9, 10, 11, 12]"
    by (simp add: consecutive_def upt_conv_Cons)
  have h: "hd (consecutive 13 20) = 13"
    by (simp add: consecutive_def upt_conv_Cons)
  note t = columns_distinct_contiguous_ordered [OF valid_scenario_config]
  from t have s: "summary_cols (compute_layout scenario_config) = [6, 7, 8, 9, 10, 11, 12]"
    by (simp add: w first_col_def c)
  from t have p: "point_cols (compute_layout scenario_config) = consecutive 13 20"
    by (simp add: w first_col_def)
  from t have d: "distinct (summary_cols (compute_layout scenario_config)
             @ point_cols (compute_layout scenario_config))"
    by (elim conjE)
  have l: "12 < hd (point_cols (compute_layout scenario_config))"
    unfolding p h by simp
  from valid_scenario_config s p d l show ?thesis by blast
qed



section \<open>The cells of a Mappe sheet\<close>

lemma apply_writes_snoc:
  "apply_writes m (ws @ [(k, v)]) = (apply_writes m ws)(k \<mapsto> v)"
  by (simp add: apply_writes_def)

lemma apply_writes_lookup:
  assumes "(k, v) \<in> set ws" and "\<forall>v'. (k, v') \<in> set ws \<longrightarrow> v' = v"
  shows "apply_writes m ws k = Some v"
  using assms
proof (induction ws rule: rev_induct)
  case Nil
  then show ?case by simp
next
  case (snoc x ws)
  obtain k' v' where x: "x = (k', v')" by (cases x)
  show ?case
  proof (cases "k' = k")
    case True
    from snoc.prems(2) have "v' = v" unfolding x True by simp
    then show ?thesis unfolding x True apply_writes_snoc by simp
  next
    case False
    from snoc.prems(1) False have in_ws: "(k, v) \<in> set ws" unfolding x by simp
    from snoc.prems(2) have "\<forall>v'. (k, v') \<in> set ws \<longrightarrow> v' = v" by simp
    with in_ws have "apply_writes m ws k = Some v" by (rule snoc.IH)
    then show ?thesis unfolding x apply_writes_snoc using False by simp
  qed
qed

lemma apply_writes_untouched:
  assumes "\<forall>v. (k, v) \<notin> set ws"
  shows "apply_writes m ws k = m k"
  using assms
proof (induction ws rule: rev_induct)
  case Nil
  then show ?case by (simp add: apply_writes_def)
next
  case (snoc x ws)
  obtain k' v' where x: "x = (k', v')" by (cases x)
  from snoc.prems have ne: "k' \<noteq> k" unfolding x by auto
  from snoc.prems have "\<forall>v. (k, v) \<notin> set ws" by simp
  then have "apply_writes m ws k = m k" by (rule snoc.IH)
  then show ?case unfolding x apply_writes_snoc using ne by simp
qed

lemma for_each_Inr:
  "(\<And>x. x \<in> set xs \<Longrightarrow> \<exists>w. f x = Inr w) \<Longrightarrow>
   for_each f xs = Inr (concat (map (\<lambda>x. projr (f x)) xs))"
proof (induction xs)
  case Nil
  then show ?case by simp
next
  case (Cons x xs)
  from Cons.prems [of x] obtain w where w: "f x = Inr w" by auto
  have "for_each f xs = Inr (concat (map (\<lambda>x. projr (f x)) xs))"
    by (rule Cons.IH) (simp add: Cons.prems)
  with w show ?case by (simp add: seq_writes_def)
qed

lemma s_cols_nonempty:
  assumes "non_empty_config cfg" and "lay \<in> set (compute_layout cfg)"
  shows "s_cols lay \<noteq> []"
proof -
  from assms(2) obtain a where a: "a < length cfg" and lay: "lay = compute_layout cfg ! a"
    by (auto simp: in_set_conv_nth compute_layout_length)
  from a assms(1) have "teilaufgaben (cfg ! a) \<noteq> []"
    by (simp add: non_empty_config_def)
  then show ?thesis by (simp add: lay compute_layout_nth [OF a])
qed

lemma s_cols_nonempty_all:
  "non_empty_config cfg \<Longrightarrow> \<forall>lay \<in> set (compute_layout cfg). s_cols lay \<noteq> []"
  by (auto dest: s_cols_nonempty)

lemma valid_non_empty: "valid_config cfg \<Longrightarrow> non_empty_config cfg"
  by (simp add: valid_config_def non_empty_config_def)

lemma row5_lay_Inr: "s_cols lay \<noteq> [] \<Longrightarrow> \<exists>w. row5_lay L lay = Inr w"
  by (cases "s_cols lay") (simp_all add: row5_lay_def)

lemma row6_lay_Inr: "s_cols lay \<noteq> [] \<Longrightarrow> \<exists>w. row6_lay L n lay = Inr w"
  by (cases "s_cols lay") (simp_all add: row6_lay_def)

lemma student_row_lay_Inr: "s_cols lay \<noteq> [] \<Longrightarrow> \<exists>w. student_row_lay L r lay = Inr w"
  by (cases "s_cols lay") (simp_all add: student_row_lay_def)

lemma student_row_Inr:
  assumes "\<forall>lay \<in> set lays. s_cols lay \<noteq> []"
  shows "student_row L lays (s_idx, st) =
     Inr ([((7 + int s_idx, 1), Num (int s_idx)), ((7 + int s_idx, 2), Str (matr_nr st)),
           ((7 + int s_idx, 3), Str (nachname st)), ((7 + int s_idx, 4), Str (vorname st))]
          @ concat (map (\<lambda>lay. projr (student_row_lay L (7 + int s_idx) lay)) lays))"
proof -
  have "for_each (student_row_lay L (7 + int s_idx)) lays
      = Inr (concat (map (\<lambda>lay. projr (student_row_lay L (7 + int s_idx) lay)) lays))"
    by (rule for_each_Inr) (simp add: student_row_lay_Inr assms)
  then show ?thesis by (simp add: student_row_def Let_def seq_writes_def)
qed

lemma mappe_writes_Inr:
  assumes "\<forall>lay \<in> set (compute_layout cfg). s_cols lay \<noteq> []"
  shows "mappe_writes L cfg studs nr sem dat =
     Inr ((row1 (compute_layout cfg) sem @ row2 (compute_layout cfg) nr dat
           @ row3 (compute_layout cfg) @ row4 (compute_layout cfg))
          @ (((5, 1), Str ''Maximale Punkte'')
             # concat (map (\<lambda>lay. projr (row5_lay L lay)) (compute_layout cfg)))
          @ (((6, 1), Str ''Durchschnittliche Punkte'')
             # concat (map (\<lambda>lay. projr (row6_lay L (length studs) lay)) (compute_layout cfg)))
          @ concat (map (\<lambda>x. projr (student_row L (compute_layout cfg) x)) (enumerate 0 studs)))"
proof -
  have r5: "for_each (row5_lay L) (compute_layout cfg)
      = Inr (concat (map (\<lambda>lay. projr (row5_lay L lay)) (compute_layout cfg)))"
    by (rule for_each_Inr) (simp add: row5_lay_Inr assms)
  have r6: "for_each (row6_lay L (length studs)) (compute_layout cfg)
      = Inr (concat (map (\<lambda>lay. projr (row6_lay L (length studs) lay)) (compute_layout cfg)))"
    by (rule for_each_Inr) (simp add: row6_lay_Inr assms)
  have ex: "\<exists>w. student_row L (compute_layout cfg) x = Inr w" for x
  proof -
    obtain i st where "x = (i, st)" by (cases x)
    then show ?thesis using student_row_Inr [of "compute_layout cfg" L i st] assms by simp
  qed
  have rs: "for_each (student_row L (compute_layout cfg)) (enumerate 0 studs)
      = Inr (concat (map (\<lambda>x. projr (student_row L (compute_layout cfg) x)) (enumerate 0 studs)))"
    by (rule for_each_Inr) (rule ex)
  show ?thesis
    unfolding mappe_writes_def Let_def row5_def row6_def student_rows_def r5 r6 rs
    by (simp add: seq_writes_def)
qed




lemma block_upper:
  assumes "a < length cfg" and "j \<le> length (teilaufgaben (cfg ! a))"
  shows "spec_ss_col cfg a + int j < first_col + summary_width cfg"
proof -
  have "summary_width (take (Suc a) cfg) \<le> summary_width cfg"
    by (rule summary_width_take_le)
  with assms(2) show ?thesis
    by (simp add: spec_ss_col_def summary_width_Suc [OF assms(1)] block_width_def)
qed


lemma point_start_lower:
  assumes "nonneg_points cfg" and "a < length cfg"
  shows "first_col + summary_width cfg \<le> spec_point_start cfg a t"
proof -
  have "0 \<le> total_points (take a cfg)" using assms(1) by (rule total_points_nonneg)
  moreover have "0 \<le> sum_list (map punkte (take t (teilaufgaben (cfg ! a))))"
  proof (rule sum_list_nonneg)
    fix x assume "x \<in> set (map punkte (take t (teilaufgaben (cfg ! a))))"
    then obtain u where "u \<in> set (teilaufgaben (cfg ! a))" and "x = punkte u"
      by (auto dest: in_set_takeD)
    moreover have "cfg ! a \<in> set cfg" using assms(2) by simp
    ultimately show "0 \<le> x" using assms(1) by (simp add: nonneg_points_def)
  qed
  ultimately show ?thesis by (simp add: spec_point_start_def)
qed

text \<open>The columns of a layout entry, by task index.\<close>

lemma layout_ss_col: "a < length cfg \<Longrightarrow> ss_col (compute_layout cfg ! a) = spec_ss_col cfg a"
  by (simp add: compute_layout_nth)

lemma layout_n_teil:
  "a < length cfg \<Longrightarrow> n_teil (compute_layout cfg ! a) = length (teilaufgaben (cfg ! a))"
  by (simp add: compute_layout_nth)

lemma layout_s_col:
  "a < length cfg \<Longrightarrow> t < length (teilaufgaben (cfg ! a)) \<Longrightarrow>
   s_cols (compute_layout cfg ! a) ! t = spec_ss_col cfg a + int (Suc t)"
  by (simp add: compute_layout_nth)

lemma layout_point_col:
  "a < length cfg \<Longrightarrow> t < length (teilaufgaben (cfg ! a)) \<Longrightarrow>
   point_col (compute_layout cfg ! a) t p = spec_point_start cfg a t + int p"
  by (simp add: compute_layout_nth point_col_def)


lemma row5_lay_set:
  "s_cols lay \<noteq> [] \<Longrightarrow>
   set (projr (row5_lay L lay)) =
     insert ((5, ss_col lay), ss_value L lay 5)
       (\<Union>t \<in> {0..<n_teil lay}.
          insert ((5, s_cols lay ! t), s_value L lay t 5)
            ((\<lambda>p. ((5, point_col lay t p), Num 1)) ` {0..<nat (teil_punkte lay ! t)}))"
  by (cases "s_cols lay") (simp_all add: row5_lay_def range_punkte_def)

lemma row6_lay_set:
  "s_cols lay \<noteq> [] \<Longrightarrow>
   set (projr (row6_lay L n lay)) =
     insert ((6, ss_col lay), ss_value L lay 6)
       (\<Union>t \<in> {0..<n_teil lay}.
          insert ((6, s_cols lay ! t), s_value L lay t 6)
            ((\<lambda>p. ((6, point_col lay t p),
                    Str (average_formula L (point_col lay t p) 7 (7 + int n - 1))))
             ` {0..<nat (teil_punkte lay ! t)}))"
  by (cases "s_cols lay") (simp_all add: row6_lay_def range_punkte_def)

lemma student_row_lay_set:
  "s_cols lay \<noteq> [] \<Longrightarrow>
   set (projr (student_row_lay L r lay)) =
     insert ((r, ss_col lay), ss_value L lay r)
       ((\<lambda>t. ((r, s_cols lay ! t), s_value L lay t r)) ` {0..<n_teil lay})"
  by (cases "s_cols lay") (simp_all add: student_row_lay_def)

lemma row1_keys: "kv \<in> set (row1 lays sem) \<Longrightarrow> fst (fst kv) = 1"
  by (auto simp: row1_def)

lemma row2_keys: "kv \<in> set (row2 lays nr dat) \<Longrightarrow> fst (fst kv) = 2"
  by (auto simp: row2_def)

lemma row3_keys: "kv \<in> set (row3 lays) \<Longrightarrow> fst (fst kv) = 3"
  by (auto simp: row3_def row3_descs_def Let_def split: if_splits)

lemma row4_keys: "kv \<in> set (row4 lays) \<Longrightarrow> fst (fst kv) = 4"
  by (auto simp: row4_def)


lemma row5_lay_keys:
  "s_cols lay \<noteq> [] \<Longrightarrow> kv \<in> set (projr (row5_lay L lay)) \<Longrightarrow> fst (fst kv) = 5"
  by (auto simp: row5_lay_set)

lemma row6_lay_keys:
  "s_cols lay \<noteq> [] \<Longrightarrow> kv \<in> set (projr (row6_lay L n lay)) \<Longrightarrow> fst (fst kv) = 6"
  by (auto simp: row6_lay_set)

lemma student_row_lay_keys:
  "s_cols lay \<noteq> [] \<Longrightarrow> kv \<in> set (projr (student_row_lay L r lay)) \<Longrightarrow> fst (fst kv) = r"
  by (auto simp: student_row_lay_set)

lemma student_row_set:
  assumes "\<forall>lay \<in> set lays. s_cols lay \<noteq> []"
  shows "set (projr (student_row L lays (s_idx, st))) =
     {((7 + int s_idx, 1), Num (int s_idx)), ((7 + int s_idx, 2), Str (matr_nr st)),
      ((7 + int s_idx, 3), Str (nachname st)), ((7 + int s_idx, 4), Str (vorname st))}
     \<union> (\<Union>lay \<in> set lays. set (projr (student_row_lay L (7 + int s_idx) lay)))"
  by (simp add: student_row_Inr [OF assms])

lemma student_row_keys:
  assumes "\<forall>lay \<in> set lays. s_cols lay \<noteq> []"
    and "kv \<in> set (projr (student_row L lays (s_idx, st)))"
  shows "fst (fst kv) = 7 + int s_idx"
proof -
  have "set (projr (student_row L lays (s_idx, st))) =
     {((7 + int s_idx, 1), Num (int s_idx)), ((7 + int s_idx, 2), Str (matr_nr st)),
      ((7 + int s_idx, 3), Str (nachname st)), ((7 + int s_idx, 4), Str (vorname st))}
     \<union> (\<Union>lay \<in> set lays. set (projr (student_row_lay L (7 + int s_idx) lay)))"
    using assms(1) by (rule student_row_set)
  with assms(2) consider
      "kv \<in> {((7 + int s_idx, 1), Num (int s_idx)), ((7 + int s_idx, 2), Str (matr_nr st)),
         ((7 + int s_idx, 3), Str (nachname st)), ((7 + int s_idx, 4), Str (vorname st))}"
    | lay where "lay \<in> set lays" "kv \<in> set (projr (student_row_lay L (7 + int s_idx) lay))"
    by auto
  then show ?thesis
  proof cases
    case 1
    then show ?thesis by auto
  next
    case 2
    then show ?thesis using assms(1) by (intro student_row_lay_keys) auto
  qed
qed

lemma mappe_writes_set:
  assumes "\<forall>lay \<in> set (compute_layout cfg). s_cols lay \<noteq> []"
  shows "set (projr (mappe_writes L cfg studs nr sem dat)) =
     set (row1 (compute_layout cfg) sem) \<union> set (row2 (compute_layout cfg) nr dat)
     \<union> set (row3 (compute_layout cfg)) \<union> set (row4 (compute_layout cfg))
     \<union> insert ((5, 1), Str ''Maximale Punkte'')
         (\<Union>lay \<in> set (compute_layout cfg). set (projr (row5_lay L lay)))
     \<union> insert ((6, 1), Str ''Durchschnittliche Punkte'')
         (\<Union>lay \<in> set (compute_layout cfg). set (projr (row6_lay L (length studs) lay)))
     \<union> (\<Union>x \<in> set (enumerate 0 studs). set (projr (student_row L (compute_layout cfg) x)))"
  by (simp add: mappe_writes_Inr [OF assms]) blast

lemma build_mappe_sheet_Inr:
  assumes "\<forall>lay \<in> set (compute_layout cfg). s_cols lay \<noteq> []"
  shows "build_mappe_sheet L cfg studs nr sem dat
         = Inr (apply_writes Map.empty (projr (mappe_writes L cfg studs nr sem dat)))"
  by (simp add: build_mappe_sheet_def mappe_writes_Inr [OF assms])


lemma writes_by_row:
  assumes ne: "\<forall>lay \<in> set (compute_layout cfg). s_cols lay \<noteq> []"
    and kv: "kv \<in> set (projr (mappe_writes L cfg studs nr sem dat))"
  shows "(fst (fst kv) = 1 \<and> kv \<in> set (row1 (compute_layout cfg) sem)) \<or>
         (fst (fst kv) = 2 \<and> kv \<in> set (row2 (compute_layout cfg) nr dat)) \<or>
         (fst (fst kv) = 3 \<and> kv \<in> set (row3 (compute_layout cfg))) \<or>
         (fst (fst kv) = 4 \<and> kv \<in> set (row4 (compute_layout cfg))) \<or>
         (fst (fst kv) = 5 \<and>
            (kv = ((5, 1), Str ''Maximale Punkte'') \<or>
             (\<exists>lay \<in> set (compute_layout cfg). kv \<in> set (projr (row5_lay L lay))))) \<or>
         (fst (fst kv) = 6 \<and>
            (kv = ((6, 1), Str ''Durchschnittliche Punkte'') \<or>
             (\<exists>lay \<in> set (compute_layout cfg).
                kv \<in> set (projr (row6_lay L (length studs) lay))))) \<or>
         (\<exists>i < length studs. fst (fst kv) = 7 + int i \<and>
            kv \<in> set (projr (student_row L (compute_layout cfg) (i, studs ! i))))"
proof -
  have "set (projr (mappe_writes L cfg studs nr sem dat)) =
     set (row1 (compute_layout cfg) sem) \<union> set (row2 (compute_layout cfg) nr dat)
     \<union> set (row3 (compute_layout cfg)) \<union> set (row4 (compute_layout cfg))
     \<union> insert ((5, 1), Str ''Maximale Punkte'')
         (\<Union>lay \<in> set (compute_layout cfg). set (projr (row5_lay L lay)))
     \<union> insert ((6, 1), Str ''Durchschnittliche Punkte'')
         (\<Union>lay \<in> set (compute_layout cfg). set (projr (row6_lay L (length studs) lay)))
     \<union> (\<Union>x \<in> set (enumerate 0 studs). set (projr (student_row L (compute_layout cfg) x)))"
    using ne by (rule mappe_writes_set)
  with kv consider
      (r1) "kv \<in> set (row1 (compute_layout cfg) sem)"
    | (r2) "kv \<in> set (row2 (compute_layout cfg) nr dat)"
    | (r3) "kv \<in> set (row3 (compute_layout cfg))"
    | (r4) "kv \<in> set (row4 (compute_layout cfg))"
    | (h5) "kv = ((5, 1), Str ''Maximale Punkte'')"
    | (r5) lay where "lay \<in> set (compute_layout cfg)" "kv \<in> set (projr (row5_lay L lay))"
    | (h6) "kv = ((6, 1), Str ''Durchschnittliche Punkte'')"
    | (r6) lay where "lay \<in> set (compute_layout cfg)"
        "kv \<in> set (projr (row6_lay L (length studs) lay))"
    | (rs) x where "x \<in> set (enumerate 0 studs)"
        "kv \<in> set (projr (student_row L (compute_layout cfg) x))"
    by (simp only: Un_iff insert_iff UN_iff) blast
  then show ?thesis
  proof cases
    case r1
    then show ?thesis using row1_keys [OF r1] by blast
  next
    case r2
    then show ?thesis using row2_keys [OF r2] by blast
  next
    case r3
    then show ?thesis using row3_keys [OF r3] by blast
  next
    case r4
    then show ?thesis using row4_keys [OF r4] by blast
  next
    case h5
    then show ?thesis by simp
  next
    case r5
    have "fst (fst kv) = 5" using ne [rule_format, OF r5(1)] r5(2) by (rule row5_lay_keys)
    with r5 show ?thesis by blast
  next
    case h6
    then show ?thesis by simp
  next
    case r6
    have "fst (fst kv) = 6" using ne [rule_format, OF r6(1)] r6(2) by (rule row6_lay_keys)
    with r6 show ?thesis by blast
  next
    case rs
    obtain i st where xp: "x = (i, st)" by (cases x)
    with rs(1) have i: "i < length studs" and x: "x = (i, studs ! i)"
      by (auto simp: in_set_enumerate_eq)
    have "fst (fst kv) = 7 + int i"
      using ne rs(2) [unfolded x] by (rule student_row_keys)
    with i rs(2) x show ?thesis by blast
  qed
qed

lemma cells_of_cases:
  assumes "((r', c), v) \<in> cells_of r A B C P lay"
  obtains (ss) "r' = r" "c = ss_col lay" "v = A"
    | (s) t where "r' = r" "t < n_teil lay" "c = s_cols lay ! t" "v = B t"
    | (pt) t p where "r' = r" "t < n_teil lay" "p \<in> P t" "c = point_col lay t p" "v = C t p"
  using assms unfolding cells_of_def by auto


lemma row6_lay_cells:
  "s_cols lay \<noteq> [] \<Longrightarrow>
   set (projr (row6_lay L n lay)) =
     cells_of 6 (ss_value L lay 6) (\<lambda>t. s_value L lay t 6)
       (\<lambda>t p. Str (average_formula L (point_col lay t p) 7 (7 + int n - 1)))
       (\<lambda>t. {0..<nat (teil_punkte lay ! t)}) lay"
  by (simp add: row6_lay_set cells_of_def)

lemma student_row_lay_cells:
  "s_cols lay \<noteq> [] \<Longrightarrow>
   set (projr (student_row_lay L r lay)) =
     cells_of r (ss_value L lay r) (\<lambda>t. s_value L lay t r) (\<lambda>t p. Num 0) (\<lambda>t. {}) lay"
  by (auto simp: student_row_lay_set cells_of_def)

lemma layout_index:
  "lay \<in> set (compute_layout cfg) \<Longrightarrow> \<exists>a < length cfg. lay = compute_layout cfg ! a"
  by (auto simp: in_set_conv_nth compute_layout_length)

lemma layout_in_set: "a < length cfg \<Longrightarrow> compute_layout cfg ! a \<in> set (compute_layout cfg)"
  by (simp add: compute_layout_length)


text \<open>A point column is written by point cells only.\<close>

lemma point_key_unique:
  assumes a: "a < length cfg" and a': "a' < length cfg"
    and t: "t < length (teilaufgaben (cfg ! a))"
    and nn: "nonneg_points cfg"
    and mem: "((r', point_col (compute_layout cfg ! a) t p), v)
                \<in> cells_of r A B C P (compute_layout cfg ! a')"
  shows "r' = r \<and> (\<exists>t' p'. t' < n_teil (compute_layout cfg ! a') \<and> p' \<in> P t' \<and>
           point_col (compute_layout cfg ! a') t' p' = point_col (compute_layout cfg ! a) t p \<and>
           v = C t' p')"
  using mem
proof (cases rule: cells_of_cases)
  case ss
  have "spec_ss_col cfg a' + int 0 < first_col + summary_width cfg"
    using a' by (intro block_upper) simp_all
  moreover have "first_col + summary_width cfg \<le> spec_point_start cfg a t"
    using nn a by (rule point_start_lower)
  ultimately have "ss_col (compute_layout cfg ! a') < point_col (compute_layout cfg ! a) t p"
    by (simp add: layout_point_col [OF a t] layout_ss_col [OF a'])
  with ss(2) show ?thesis by simp
next
  case (s u)
  from s(2) have u: "u < length (teilaufgaben (cfg ! a'))" by (simp add: layout_n_teil [OF a'])
  have "spec_ss_col cfg a' + int (Suc u) < first_col + summary_width cfg"
    using a' u by (intro block_upper) simp_all
  moreover have "first_col + summary_width cfg \<le> spec_point_start cfg a t"
    using nn a by (rule point_start_lower)
  ultimately have "s_cols (compute_layout cfg ! a') ! u < point_col (compute_layout cfg ! a) t p"
    by (simp add: layout_point_col [OF a t] layout_s_col [OF a' u])
  with s(3) show ?thesis by simp
next
  case (pt t' p')
  then show ?thesis by auto
qed



lemma cells_of_pt:
  "t < n_teil lay \<Longrightarrow> p \<in> P t \<Longrightarrow> ((r, point_col lay t p), C t p) \<in> cells_of r A B C P lay"
  unfolding cells_of_def by (rule insertI2, rule UN_I [of t]) simp_all

lemma sheet_cell:
  assumes ne: "non_empty_config cfg"
    and mem: "(k, v) \<in> set (projr (mappe_writes L cfg studs nr sem dat))"
    and uniq: "\<forall>v'. (k, v') \<in> set (projr (mappe_writes L cfg studs nr sem dat)) \<longrightarrow> v' = v"
  shows "\<exists>ws. build_mappe_sheet L cfg studs nr sem dat = Inr ws \<and> ws k = Some v"
proof -
  have "build_mappe_sheet L cfg studs nr sem dat
      = Inr (apply_writes Map.empty (projr (mappe_writes L cfg studs nr sem dat)))"
    using ne by (intro build_mappe_sheet_Inr s_cols_nonempty_all)
  moreover have "apply_writes Map.empty (projr (mappe_writes L cfg studs nr sem dat)) k = Some v"
    using mem uniq by (rule apply_writes_lookup)
  ultimately show ?thesis by simp
qed







lemma writes_student:
  assumes ne: "non_empty_config cfg"
    and mem: "((7 + int s, c), v) \<in> set (projr (mappe_writes L cfg studs nr sem dat))"
  shows "s < length studs \<and>
         ((c = 1 \<and> v = Num (int s)) \<or> (c = 2 \<and> v = Str (matr_nr (studs ! s))) \<or>
          (c = 3 \<and> v = Str (nachname (studs ! s))) \<or> (c = 4 \<and> v = Str (vorname (studs ! s))) \<or>
          (\<exists>a < length cfg. ((7 + int s, c), v) \<in>
             cells_of (7 + int s) (ss_value L (compute_layout cfg ! a) (7 + int s))
               (\<lambda>t. s_value L (compute_layout cfg ! a) t (7 + int s)) (\<lambda>t p. Num 0) (\<lambda>t. {})
               (compute_layout cfg ! a)))"
proof -
  have ne': "\<forall>lay \<in> set (compute_layout cfg). s_cols lay \<noteq> []"
    using ne by (rule s_cols_nonempty_all)
  have "\<exists>i < length studs. 7 + int s = 7 + int i \<and>
      ((7 + int s, c), v) \<in> set (projr (student_row L (compute_layout cfg) (i, studs ! i)))"
    using writes_by_row [of cfg "((7 + int s, c), v)" L studs nr sem dat] ne' mem by simp
  then have s: "s < length studs"
    and m: "((7 + int s, c), v) \<in> set (projr (student_row L (compute_layout cfg) (s, studs ! s)))"
    by auto
  have "set (projr (student_row L (compute_layout cfg) (s, studs ! s))) =
     {((7 + int s, 1), Num (int s)), ((7 + int s, 2), Str (matr_nr (studs ! s))),
      ((7 + int s, 3), Str (nachname (studs ! s))), ((7 + int s, 4), Str (vorname (studs ! s)))}
     \<union> (\<Union>lay \<in> set (compute_layout cfg).
          set (projr (student_row_lay L (7 + int s) lay)))"
    using ne' by (rule student_row_set)
  with m have d: "(c = 1 \<and> v = Num (int s)) \<or> (c = 2 \<and> v = Str (matr_nr (studs ! s))) \<or>
          (c = 3 \<and> v = Str (nachname (studs ! s))) \<or> (c = 4 \<and> v = Str (vorname (studs ! s))) \<or>
          (\<exists>lay \<in> set (compute_layout cfg).
             ((7 + int s, c), v) \<in> set (projr (student_row_lay L (7 + int s) lay)))"
    by auto
  have "\<exists>a < length cfg. ((7 + int s, c), v) \<in>
             cells_of (7 + int s) (ss_value L (compute_layout cfg ! a) (7 + int s))
               (\<lambda>t. s_value L (compute_layout cfg ! a) t (7 + int s)) (\<lambda>t p. Num 0) (\<lambda>t. {})
               (compute_layout cfg ! a)"
    if "lay \<in> set (compute_layout cfg)"
      and "((7 + int s, c), v) \<in> set (projr (student_row_lay L (7 + int s) lay))" for lay
  proof -
    from that(1) obtain a where a: "a < length cfg" and lay: "lay = compute_layout cfg ! a"
      using layout_index [of lay cfg] by blast
    from that(2) have "((7 + int s, c), v) \<in> cells_of (7 + int s) (ss_value L lay (7 + int s))
               (\<lambda>t. s_value L lay t (7 + int s)) (\<lambda>t p. Num 0) (\<lambda>t. {}) lay"
      using student_row_lay_cells [of lay L "7 + int s"] ne' that(1) by simp
    with a show ?thesis unfolding lay by blast
  qed
  with d s show ?thesis by blast
qed





section \<open>The formulas of the summary cells\<close>
















section \<open>The split into Mappen\<close>






















section \<open>The average row\<close>

lemma writes_row6:
  assumes ne: "non_empty_config cfg"
    and mem: "((6, c), v) \<in> set (projr (mappe_writes L cfg studs nr sem dat))"
  shows "(c = 1 \<and> v = Str ''Durchschnittliche Punkte'') \<or>
         (\<exists>a < length cfg. ((6, c), v) \<in>
            cells_of 6 (ss_value L (compute_layout cfg ! a) 6)
              (\<lambda>t. s_value L (compute_layout cfg ! a) t 6)
              (\<lambda>t p. Str (average_formula L (point_col (compute_layout cfg ! a) t p) 7 (7 + int (length studs) - 1)))
              (\<lambda>t. {0..<nat (teil_punkte (compute_layout cfg ! a) ! t)}) (compute_layout cfg ! a))"
proof -
  have ne': "\<forall>lay \<in> set (compute_layout cfg). s_cols lay \<noteq> []"
    using ne by (rule s_cols_nonempty_all)
  have d: "((6, c), v) = ((6, 1), Str ''Durchschnittliche Punkte'') \<or>
      (\<exists>lay \<in> set (compute_layout cfg).
         ((6, c), v) \<in> set (projr (row6_lay L (length studs) lay)))"
    using writes_by_row [of cfg "((6, c), v)" L studs nr sem dat] ne' mem by simp
  show ?thesis
  proof (rule disjE [OF d])
    assume "((6, c), v) = ((6, 1), Str ''Durchschnittliche Punkte'')"
    then show ?thesis by simp
  next
    assume "\<exists>lay \<in> set (compute_layout cfg).
      ((6, c), v) \<in> set (projr (row6_lay L (length studs) lay))"
    then obtain lay where l: "lay \<in> set (compute_layout cfg)"
      and m: "((6, c), v) \<in> set (projr (row6_lay L (length studs) lay))" by blast
    from l obtain a where a: "a < length cfg" and lay: "lay = compute_layout cfg ! a"
      using layout_index [of lay cfg] by blast
    from m have "((6, c), v) \<in>
            cells_of 6 (ss_value L lay 6)
              (\<lambda>t. s_value L lay t 6)
              (\<lambda>t p. Str (average_formula L (point_col lay t p) 7 (7 + int (length studs) - 1)))
              (\<lambda>t. {0..<nat (teil_punkte lay ! t)}) lay"
      using row6_lay_cells [of lay L "length studs"] ne' l by simp
    with a show ?thesis unfolding lay by blast
  qed
qed

lemma in_writes_row6:
  assumes ne: "non_empty_config cfg" and a: "a < length cfg"
    and mem: "kv \<in>
            cells_of 6 (ss_value L (compute_layout cfg ! a) 6)
              (\<lambda>t. s_value L (compute_layout cfg ! a) t 6)
              (\<lambda>t p. Str (average_formula L (point_col (compute_layout cfg ! a) t p) 7 (7 + int (length studs) - 1)))
              (\<lambda>t. {0..<nat (teil_punkte (compute_layout cfg ! a) ! t)}) (compute_layout cfg ! a)"
  shows "kv \<in> set (projr (mappe_writes L cfg studs nr sem dat))"
proof -
  have ne': "\<forall>lay \<in> set (compute_layout cfg). s_cols lay \<noteq> []"
    using ne by (rule s_cols_nonempty_all)
  have in_set: "compute_layout cfg ! a \<in> set (compute_layout cfg)"
    using a by (rule layout_in_set)
  from mem have "kv \<in> set (projr (row6_lay L (length studs) (compute_layout cfg ! a)))"
    using row6_lay_cells [of "compute_layout cfg ! a" L "length studs"] ne' in_set by simp
  with in_set have "kv \<in> (\<Union>lay \<in> set (compute_layout cfg).
      set (projr (row6_lay L (length studs) lay)))"
    by blast
  then show ?thesis using mappe_writes_set [OF ne', of L studs nr sem dat] by blast
qed

lemma point_col_ge:
  assumes "nonneg_points cfg" and "a < length cfg" and "t < length (teilaufgaben (cfg ! a))"
  shows "6 \<le> point_col (compute_layout cfg ! a) t p"
  using point_start_lower [OF assms(1,2), of t] summary_width_nonneg [of cfg]
  by (simp add: layout_point_col [OF assms(2,3)] first_col_def)

lemma row6_point_cell:
  assumes ne: "non_empty_config cfg" and nn: "nonneg_points cfg" and a: "a < length cfg"
    and t: "t < length (teilaufgaben (cfg ! a))"
    and p: "int p < punkte (teilaufgaben (cfg ! a) ! t)"
  shows "\<exists>ws. build_mappe_sheet L cfg studs nr sem dat = Inr ws \<and>
           ws (6, point_col (compute_layout cfg ! a) t p)
             = Some (Str (average_formula L (point_col (compute_layout cfg ! a) t p) 7
                            (7 + int (length studs) - 1)))"
proof (rule sheet_cell [OF ne])
  let ?lay = "compute_layout cfg ! a"
  let ?v = "Str (average_formula L (point_col ?lay t p) 7 (7 + int (length studs) - 1))"
  have "p \<in> {0..<nat (teil_punkte ?lay ! t)}"
    using p t by (simp add: compute_layout_nth [OF a])
  then have "((6, point_col ?lay t p), ?v) \<in>
            cells_of 6 (ss_value L (compute_layout cfg ! a) 6)
              (\<lambda>t. s_value L (compute_layout cfg ! a) t 6)
              (\<lambda>t p. Str (average_formula L (point_col (compute_layout cfg ! a) t p) 7 (7 + int (length studs) - 1)))
              (\<lambda>t. {0..<nat (teil_punkte (compute_layout cfg ! a) ! t)}) (compute_layout cfg ! a)"
    using t by (intro cells_of_pt) (simp_all add: layout_n_teil [OF a])
  then show "((6, point_col ?lay t p), ?v) \<in> set (projr (mappe_writes L cfg studs nr sem dat))"
    by (rule in_writes_row6 [OF ne a])
  show "\<forall>v'. ((6, point_col ?lay t p), v') \<in> set (projr (mappe_writes L cfg studs nr sem dat))
          \<longrightarrow> v' = ?v"
  proof (intro allI impI)
    fix v'
    assume w: "((6, point_col ?lay t p), v') \<in> set (projr (mappe_writes L cfg studs nr sem dat))"
    have "6 \<le> point_col ?lay t p" using nn a t by (rule point_col_ge)
    with writes_row6 [OF ne w]
    obtain a' where a': "a' < length cfg"
      and m: "((6, point_col ?lay t p), v') \<in>
            cells_of 6 (ss_value L (compute_layout cfg ! a') 6)
              (\<lambda>t. s_value L (compute_layout cfg ! a') t 6)
              (\<lambda>t p. Str (average_formula L (point_col (compute_layout cfg ! a') t p) 7 (7 + int (length studs) - 1)))
              (\<lambda>t. {0..<nat (teil_punkte (compute_layout cfg ! a') ! t)}) (compute_layout cfg ! a')"
      by auto
    from point_key_unique [OF a a' t nn m] show "v' = ?v" by auto
  qed
qed

lemma student_point_cell_blank:
  assumes ne: "non_empty_config cfg" and nn: "nonneg_points cfg" and a: "a < length cfg"
    and t: "t < length (teilaufgaben (cfg ! a))"
  shows "\<exists>ws. build_mappe_sheet L cfg studs nr sem dat = Inr ws \<and>
           ws (7 + int s, point_col (compute_layout cfg ! a) t p) = None"
proof -
  let ?W = "projr (mappe_writes L cfg studs nr sem dat)"
  let ?lay = "compute_layout cfg ! a"
  let ?r = "7 + int s"
  have b: "build_mappe_sheet L cfg studs nr sem dat = Inr (apply_writes Map.empty ?W)"
    using ne by (intro build_mappe_sheet_Inr s_cols_nonempty_all)
  have ge: "6 \<le> point_col ?lay t p" using nn a t by (rule point_col_ge)
  have "\<forall>v. ((?r, point_col ?lay t p), v) \<notin> set ?W"
  proof (intro allI notI)
    fix v
    assume w: "((?r, point_col ?lay t p), v) \<in> set ?W"
    from writes_student [OF ne w] ge
    obtain a' where a': "a' < length cfg"
      and m: "((?r, point_col ?lay t p), v) \<in>
             cells_of ?r (ss_value L (compute_layout cfg ! a') ?r)
               (\<lambda>t. s_value L (compute_layout cfg ! a') t ?r) (\<lambda>t p. Num 0) (\<lambda>t. {})
               (compute_layout cfg ! a')"
      by auto
    from point_key_unique [OF a a' t nn m] show False by auto
  qed
  then have "apply_writes Map.empty ?W (?r, point_col ?lay t p) = None"
    using apply_writes_untouched [of "(?r, point_col ?lay t p)" ?W Map.empty] by simp
  with b show ?thesis by simp
qed

text \<open>
  The average row, as far as the program decides it: the cell of every point column in
  row 6 holds the text \<^verbatim>\<open>=IFERROR(AVERAGE(<col>7:<col><6 + n>),"")\<close> for the \<open>n\<close> students
  of the Mappe, and the program writes no value into the point cells of the student
  rows. What a spreadsheet application computes from that text is not part of the
  program.
\<close>

lemma average_cell:
  assumes "valid_config cfg" and "a < length cfg" and "t < length (teilaufgaben (cfg ! a))"
    and "int p < punkte (teilaufgaben (cfg ! a) ! t)"
  shows "\<exists>ws. build_mappe_sheet L cfg studs nr sem dat = Inr ws \<and>
    (let pc = point_col (compute_layout cfg ! a) t p
     in ws (6, pc) = Some (Str (average_formula L pc 7 (6 + int (length studs)))) \<and>
        (\<forall>s < length studs. ws (7 + int s, pc) = None))"
proof -
  let ?W = "apply_writes Map.empty (projr (mappe_writes L cfg studs nr sem dat))"
  have ne: "non_empty_config cfg" using assms(1) by (rule valid_non_empty)
  have nn: "nonneg_points cfg" using assms(1) by (rule valid_nonneg)
  have b: "build_mappe_sheet L cfg studs nr sem dat = Inr ?W"
    using ne by (intro build_mappe_sheet_Inr s_cols_nonempty_all)
  have "?W (6, point_col (compute_layout cfg ! a) t p)
      = Some (Str (average_formula L (point_col (compute_layout cfg ! a) t p) 7
                     (7 + int (length studs) - 1)))"
    using row6_point_cell [OF ne nn assms(2,3,4), of L studs nr sem dat] b by auto
  moreover have "?W (7 + int s, point_col (compute_layout cfg ! a) t p) = None" for s
    using student_point_cell_blank [OF ne nn assms(2,3), of L studs nr sem dat s p] b by auto
  ultimately show ?thesis using b by (simp add: Let_def)
qed

lemma average_range_without_students:
  "average_formula example_letter 9 7 (7 + int (length ([]::student list)) - 1)
   = ''=IFERROR(AVERAGE(I7:I6),'' @ [CHR 0x22, CHR 0x22] @ '')''"
  by code_simp

section \<open>Configurations outside the specification\<close>

lemma for_each_Inl:
  assumes "x \<in> set xs" and "f x = Inl e" and "\<forall>y e'. f y = Inl e' \<longrightarrow> e' = e"
  shows "for_each f xs = Inl e"
  using assms(1)
proof (induction xs)
  case Nil
  then show ?case by simp
next
  case (Cons y ys)
  show ?case
  proof (cases "f y")
    case (Inl e')
    with assms(3) have "e' = e" by blast
    with Inl show ?thesis by (simp add: seq_writes_def)
  next
    case (Inr w)
    with assms(2) have "x \<noteq> y" by auto
    with Cons.prems have "x \<in> set ys" by simp
    then have "for_each f ys = Inl e" by (rule Cons.IH)
    with Inr show ?thesis by (simp add: seq_writes_def)
  qed
qed

text \<open>
  What the sheet builder does with a task without subtasks: the allocation returns, and
  the first read of \<^verbatim>\<open>lay['s_cols'][0]\<close>, in row 5, raises \<^verbatim>\<open>IndexError\<close>.
\<close>

lemma sheet_of_task_without_subtasks:
  assumes "a < length cfg" and "teilaufgaben (cfg ! a) = []"
  shows "build_mappe_sheet L cfg studs nr sem dat = Inl IndexError"
proof -
  let ?lay = "compute_layout cfg ! a"
  have in_set: "?lay \<in> set (compute_layout cfg)" using assms(1) by (rule layout_in_set)
  have "s_cols ?lay = []" using assms(2) by (simp add: compute_layout_nth [OF assms(1)])
  then have l: "row5_lay L ?lay = Inl IndexError" by (simp add: row5_lay_def)
  have "\<forall>y e'. row5_lay L y = Inl e' \<longrightarrow> e' = IndexError"
    by (auto simp: row5_lay_def split: list.splits)
  with in_set l have "for_each (row5_lay L) (compute_layout cfg) = Inl IndexError"
    by (rule for_each_Inl)
  then show ?thesis
    by (simp add: build_mappe_sheet_def mappe_writes_def Let_def row5_def seq_writes_def)
qed

text \<open>
  C7, as stated, fails: the allocation has no check and no exception of its own (an
  exception is an \<open>Inl\<close> of the model, and the lines of the allocation hold no
  \<^verbatim>\<open>raise\<close>). For a task without subtasks and for subtasks of 0 and of -2 points it
  returns a layout, and for a subtask of 0 points the whole sheet is built without an
  exception.
\<close>

theorem allocation_of_degenerate_config:
  "compute_layout [\<lparr>teilaufgaben = []\<rparr>,
                   \<lparr>teilaufgaben = [\<lparr>punkte = 0, descriptions = []\<rparr>,
                                    \<lparr>punkte = - 2, descriptions = []\<rparr>]\<rparr>]
   = [\<lparr>teil_punkte = [], teil_descriptions = [], n_teil = 0, ss_col = 6, s_cols = [],
       sum_block_end = 6, teil_point_starts = []\<rparr>,
      \<lparr>teil_punkte = [0, - 2], teil_descriptions = [[], []], n_teil = 2, ss_col = 7,
       s_cols = [8, 9], sum_block_end = 9, teil_point_starts = [10, 10]\<rparr>] \<and>
   \<not> isl (build_mappe_sheet example_letter
            [\<lparr>teilaufgaben = [\<lparr>punkte = 0, descriptions = []\<rparr>]\<rparr>] [example_student] 1
            ''WiSe 25/26'' (2026, 2, 13))"
proof -
  have "non_empty_config [\<lparr>teilaufgaben = [\<lparr>punkte = 0, descriptions = []\<rparr>]\<rparr>]"
    by (simp add: non_empty_config_def)
  then have "\<forall>lay \<in> set (compute_layout
      [\<lparr>teilaufgaben = [\<lparr>punkte = 0, descriptions = []\<rparr>]\<rparr>]). s_cols lay \<noteq> []"
    by (rule s_cols_nonempty_all)
  then have "build_mappe_sheet example_letter
      [\<lparr>teilaufgaben = [\<lparr>punkte = 0, descriptions = []\<rparr>]\<rparr>] [example_student] 1
      ''WiSe 25/26'' (2026, 2, 13)
    = Inr (apply_writes Map.empty (projr (mappe_writes example_letter
        [\<lparr>teilaufgaben = [\<lparr>punkte = 0, descriptions = []\<rparr>]\<rparr>] [example_student] 1
        ''WiSe 25/26'' (2026, 2, 13))))"
    by (rule build_mappe_sheet_Inr)
  moreover have "compute_layout [\<lparr>teilaufgaben = []\<rparr>,
                   \<lparr>teilaufgaben = [\<lparr>punkte = 0, descriptions = []\<rparr>,
                                    \<lparr>punkte = - 2, descriptions = []\<rparr>]\<rparr>]
   = [\<lparr>teil_punkte = [], teil_descriptions = [], n_teil = 0, ss_col = 6, s_cols = [],
       sum_block_end = 6, teil_point_starts = []\<rparr>,
      \<lparr>teil_punkte = [0, - 2], teil_descriptions = [[], []], n_teil = 2, ss_col = 7,
       s_cols = [8, 9], sum_block_end = 9, teil_point_starts = [10, 10]\<rparr>]"
    by (simp add: compute_layout_def Let_def)
  ultimately show ?thesis by simp
qed

text \<open>
  C7, amended: the grid allocation never fails. For every configuration, also one with
  a task without subtasks or with a point count below 1, it returns one layout per
  task; a task without subtasks gets a summary block that is its SS column alone, and
  every subtask gets its start column recorded, the cursor then moving by its point
  count whatever its sign.
\<close>

theorem allocation_total:
  "length (compute_layout cfg) = length cfg \<and>
   (\<forall>a < length cfg.
      let lay = compute_layout cfg ! a; ts = teilaufgaben (cfg ! a)
      in ss_col lay = spec_ss_col cfg a \<and>
         length (s_cols lay) = length ts \<and>
         length (teil_point_starts lay) = length ts \<and>
         (ts = [] \<longrightarrow> s_cols lay = [] \<and> sum_block_end lay = ss_col lay
            \<and> teil_point_starts lay = []) \<and>
         (\<forall>t < length ts.
            teil_point_starts lay ! t = spec_point_start cfg a t \<and>
            spec_point_start cfg a (Suc t) = spec_point_start cfg a t + punkte (ts ! t)))"
  by (simp add: compute_layout_length compute_layout_nth Let_def spec_point_start_steps)

text \<open>The degenerate configuration again, through the general statement.\<close>

theorem allocation_total_witness:
  "1 < length [\<lparr>teilaufgaben = []\<rparr>,
               \<lparr>teilaufgaben = [\<lparr>punkte = 0, descriptions = []\<rparr>,
                                \<lparr>punkte = - 2, descriptions = []\<rparr>]\<rparr>] \<and>
   length (compute_layout [\<lparr>teilaufgaben = []\<rparr>,
               \<lparr>teilaufgaben = [\<lparr>punkte = 0, descriptions = []\<rparr>,
                                \<lparr>punkte = - 2, descriptions = []\<rparr>]\<rparr>]) = 2 \<and>
   length (teil_point_starts (compute_layout [\<lparr>teilaufgaben = []\<rparr>,
               \<lparr>teilaufgaben = [\<lparr>punkte = 0, descriptions = []\<rparr>,
                                \<lparr>punkte = - 2, descriptions = []\<rparr>]\<rparr>] ! 1)) = 2 \<and>
   s_cols (compute_layout [\<lparr>teilaufgaben = []\<rparr>,
               \<lparr>teilaufgaben = [\<lparr>punkte = 0, descriptions = []\<rparr>,
                                \<lparr>punkte = - 2, descriptions = []\<rparr>]\<rparr>] ! 0) = []"
  using allocation_total [of "[\<lparr>teilaufgaben = []\<rparr>,
               \<lparr>teilaufgaben = [\<lparr>punkte = 0, descriptions = []\<rparr>,
                                \<lparr>punkte = - 2, descriptions = []\<rparr>]\<rparr>]"]
  by (simp add: Let_def All_less_Suc)

end
